theory Spec2Isabelle
  imports Complex_Main "HOL-Library.AList"
begin

chapter \<open>The model\<close>

section \<open>JavaScript values\<close>

text \<open>
  The reactive core of ObservableJS (\<^verbatim>\<open>observable.js\<close>, \<^verbatim>\<open>computed.js\<close> and the
  \<^verbatim>\<open>ObservabilitySystem\<close> object) is embedded as functions on an explicit state.

  A JavaScript number is a finite value, one of the two infinities, the negative zero or
  \<^verbatim>\<open>NaN\<close>. Finite doubles are a subset of the rationals, and comparison, \<^verbatim>\<open>Math.max\<close>
  and \<^verbatim>\<open>Math.min\<close> are exact on them. \<open>Fin 0\<close> is the positive zero.
\<close>

datatype jsnum = Fin rat | NegZero | PosInf | NegInf | NaN

fun fin_val :: "jsnum \<Rightarrow> rat" where
  "fin_val (Fin r) = r"
| "fin_val _ = 0"

text \<open>The relational operator \<^verbatim>\<open>a > b\<close> on numbers: false as soon as one side is \<^verbatim>\<open>NaN\<close>.\<close>

fun js_gt :: "jsnum \<Rightarrow> jsnum \<Rightarrow> bool" where
  "js_gt NaN b = False"
| "js_gt a NaN = False"
| "js_gt PosInf PosInf = False"
| "js_gt PosInf b = True"
| "js_gt NegInf b = False"
| "js_gt a PosInf = False"
| "js_gt a NegInf = True"
| "js_gt a b = (fin_val b < fin_val a)"

text \<open>\<^verbatim>\<open>Math.max(a, b)\<close> and \<^verbatim>\<open>Math.min(a, b)\<close>: \<^verbatim>\<open>NaN\<close> is contagious and \<open>+0\<close> is larger than \<open>-0\<close>.\<close>

definition Math_max :: "jsnum \<Rightarrow> jsnum \<Rightarrow> jsnum" where
  "Math_max a b =
     (if a = NaN \<or> b = NaN then NaN
      else if js_gt a b then a
      else if js_gt b a then b
      else if a = NegZero then b else a)"

definition Math_min :: "jsnum \<Rightarrow> jsnum \<Rightarrow> jsnum" where
  "Math_min a b =
     (if a = NaN \<or> b = NaN then NaN
      else if js_gt b a then a
      else if js_gt a b then b
      else if a = NegZero then a else b)"

text \<open>
  Values stored in an Observable. An object (or function) is its reference \<open>Ref a\<close>; two
  objects are the same value exactly when they are the same reference.
\<close>

datatype jsval = Undefined | Null | Bool bool | Num jsnum | Str string | Ref nat

text \<open>
  \<^verbatim>\<open>Object.is\<close> (SameValue): \<^verbatim>\<open>NaN\<close> is \<^verbatim>\<open>NaN\<close>, \<open>+0\<close> is not \<open>-0\<close>, strings compare by
  content and objects by reference. Every JavaScript value has one representation in
  \<^typ>\<open>jsval\<close>, so this is equality of representations.
\<close>

definition Object_is :: "jsval \<Rightarrow> jsval \<Rightarrow> bool" where
  "Object_is a b = (a = b)"

text \<open>\<^verbatim>\<open>!!v\<close>\<close>

fun to_boolean :: "jsval \<Rightarrow> bool" where
  "to_boolean Undefined = False"
| "to_boolean Null = False"
| "to_boolean (Bool b) = b"
| "to_boolean (Num (Fin r)) = (r \<noteq> 0)"
| "to_boolean (Num NegZero) = False"
| "to_boolean (Num NaN) = False"
| "to_boolean (Num n) = True"
| "to_boolean (Str s) = (s \<noteq> [])"
| "to_boolean (Ref a) = True"

text \<open>
  A plain object literal of primitive fields is the list of its properties in creation
  order. Writing a property that exists keeps its position (\<open>AList.update\<close>); spreading
  \<^verbatim>\<open>{...a, ...b}\<close> writes the properties of \<open>b\<close> in order.
\<close>

type_synonym js_object = "(string \<times> jsval) list"

definition spread :: "js_object \<Rightarrow> js_object \<Rightarrow> js_object" where
  "spread a b = foldl (\<lambda>obj (k, x). AList.update k x obj) a b"

text \<open>
  An error object is the name of its constructor and its message. JavaScript can throw
  any value: \<open>Err e\<close> is a thrown error object and \<open>Val v\<close> any other thrown value, among
  them \<^verbatim>\<open>null\<close> and \<^verbatim>\<open>undefined\<close>, of which no property can be read.
\<close>

datatype js_error = JsError string string

definition TypeError :: "string \<Rightarrow> js_error" where
  "TypeError msg = JsError ''TypeError'' msg"

datatype thrown = Err js_error | Val jsval

definition nullish :: "thrown \<Rightarrow> bool" where
  "nullish t = (t = Val Undefined \<or> t = Val Null)"

text \<open>
  \<^verbatim>\<open>Array.prototype.slice(-n)\<close> for a number \<open>n\<close>: the relative start is \<open>-n\<close> truncated
  towards zero (\<^verbatim>\<open>NaN\<close> becomes 0); a negative start counts from the end, clamped at 0; a
  positive start is clamped at the length.
\<close>

definition trunc :: "rat \<Rightarrow> int" where
  "trunc r = (if 0 \<le> r then \<lfloor>r\<rfloor> else \<lceil>r\<rceil>)"

fun slice_last :: "jsnum \<Rightarrow> 'a list \<Rightarrow> 'a list" where
  "slice_last (Fin n) xs =
     (let k = trunc (- n) in
      if k < 0 then drop (nat (max (int (length xs) + k) 0)) xs
      else drop (nat (min k (int (length xs)))) xs)"
| "slice_last NegZero xs = xs"
| "slice_last NaN xs = xs"
| "slice_last PosInf xs = xs"
| "slice_last NegInf xs = []"

section \<open>Observable: subscribers and counters\<close>

text \<open>
  A subscriber is a function object. \<open>UserFn f\<close> is the user function with identity \<open>f\<close>;
  \<open>DepListener c k\<close> is the arrow function that \<^verbatim>\<open>computed\<close> creates for the \<open>k\<close>-th entry
  of the dependency list of the computed cell \<open>c\<close> (a fresh closure per entry).
\<close>

datatype callback = UserFn nat | DepListener nat nat

datatype history_entry =
    HistRead int string
  | HistWrite int jsval jsval string

record metrics_rec =
  reads :: nat
  writes :: nat
  subscriptions :: int
  computeTime :: rat
  lastAccessed :: int
  history :: "history_entry list"

record compute_metrics =
  totalComputations :: nat
  lastComputeTime :: rat
  averageComputeTime :: rat
  compute_errors :: nat

text \<open>
  What \<^verbatim>\<open>computed\<close> closes over and attaches to its result cell: the name, the compute
  function (an index into the host's table of user functions), the dependency list
  (\<open>None\<close> for an entry that is not subscribable) and the compute metrics.
\<close>

record computed_info =
  computeName :: string
  computeFn :: nat
  deps :: "nat option list"
  computeMetrics :: compute_metrics

text \<open>
  A JavaScript \<^verbatim>\<open>Set\<close> is the list of its entries in insertion order: \<^verbatim>\<open>add\<close> appends a
  value that is not in the set, and \<^verbatim>\<open>delete\<close> empties the entry of a value (\<open>None\<close>)
  and leaves it in the list, where a running \<^verbatim>\<open>forEach\<close> steps over it. The elements of the
  set are the values of the entries that are not empty, and \<^verbatim>\<open>size\<close> is their number.
\<close>

fun live :: "'a option list \<Rightarrow> 'a list" where
  "live [] = []"
| "live (None # es) = live es"
| "live (Some x # es) = x # live es"

definition set_add :: "'a \<Rightarrow> 'a option list \<Rightarrow> 'a option list" where
  "set_add x es = (if Some x \<in> set es then es else es @ [Some x])"

definition set_delete :: "'a \<Rightarrow> 'a option list \<Rightarrow> 'a option list" where
  "set_delete x es = map (\<lambda>e. if e = Some x then None else e) es"

text \<open>
  \<open>entries\<close> is the \<^verbatim>\<open>Set\<close> \<^verbatim>\<open>_subscribers\<close> and \<open>subscribers\<close> its elements in insertion
  order. \<open>ident\<close> is the number \<open>n\<close> of the id \<^verbatim>\<open>obs_n\<close>.
\<close>

record observable =
  val :: jsval
  entries :: "callback option list"
  metrics :: metrics_rec
  ident :: nat
  computed_of :: "computed_info option"

definition subscribers :: "observable \<Rightarrow> callback list" where
  "subscribers obs = live (entries obs)"

text \<open>
  \<^verbatim>\<open>subscribe(callback)\<close>; the argument is \<open>None\<close> when it is not a function. The returned
  unsubscribe closure is \<open>unsubscribe cb\<close>.
\<close>

definition subscribe :: "callback option \<Rightarrow> observable \<Rightarrow> js_error + observable" where
  "subscribe arg obs =
     (case arg of
        None \<Rightarrow> Inl (JsError ''Error'' ''Subscriber must be a function'')
      | Some cb \<Rightarrow>
          Inr (obs\<lparr>metrics := (metrics obs)\<lparr>subscriptions := subscriptions (metrics obs) + 1\<rparr>,
                   entries := set_add cb (entries obs)\<rparr>))"

definition unsubscribe :: "callback \<Rightarrow> observable \<Rightarrow> observable" where
  "unsubscribe cb obs =
     obs\<lparr>entries := set_delete cb (entries obs),
         metrics := (metrics obs)\<lparr>subscriptions := subscriptions (metrics obs) - 1\<rparr>\<rparr>"

text \<open>\<^verbatim>\<open>silentSet(value)\<close>\<close>

definition silentSet :: "jsval \<Rightarrow> observable \<Rightarrow> observable" where
  "silentSet v obs = obs\<lparr>val := v\<rparr>"

text \<open>The fields the constructor sets, for the id \<open>n\<close> and the time \<open>t\<close> of \<^verbatim>\<open>Date.now()\<close>.\<close>

definition fresh_observable :: "jsval \<Rightarrow> int \<Rightarrow> nat \<Rightarrow> observable" where
  "fresh_observable initialValue t n =
     \<lparr>val = initialValue, entries = [],
      metrics = \<lparr>reads = 0, writes = 0, subscriptions = 0, computeTime = 0,
                 lastAccessed = t, history = []\<rparr>,
      ident = n, computed_of = None\<rparr>"

section \<open>ObservabilitySystem: state\<close>

text \<open>
  An entry of the error log, \<^verbatim>\<open>{type, message: error.message, stack: error.stack, context,
  timestamp}\<close>: \<open>err\<close> is the thrown value whose \<^verbatim>\<open>message\<close> and \<^verbatim>\<open>stack\<close> were read.
\<close>

record error_record =
  err_type :: string
  err :: thrown
  err_context :: js_object
  err_timestamp :: int

record memory_sample =
  usedJSHeapSize :: nat
  totalJSHeapSize :: nat
  mem_timestamp :: int

record global_metrics =
  totalReads :: nat
  totalWrites :: nat
  totalRenders :: nat
  slowRenders :: nat
  memoryUsage :: "memory_sample list"
  performanceIssues :: "js_object list"
  errors :: "error_record list"

text \<open>
  A registered component is a collaborator of the UI layer: the name of its constructor
  and what its \<^verbatim>\<open>getMetrics()\<close> yields now (it may throw any value).
\<close>

record comp_metrics =
  renders :: nat
  renderTime :: rat
  lastRenderTime :: rat

record component =
  constructor_name :: string
  comp_getMetrics :: "thrown + comp_metrics"

text \<open>
  The state: the \<^verbatim>\<open>ObservabilitySystem\<close> object, the module's \<open>nextId\<close> and the Observable
  objects. \<open>observables\<close> holds the keys of the \<^verbatim>\<open>_observables\<close> map in insertion order (the
  key \<open>n\<close> is the id \<^verbatim>\<open>obs_n\<close>) and \<open>heap n\<close> is the object registered under it, so that a
  change of an Observable is seen through the registry, as it is through the references the
  map holds. \<open>components\<close> is the \<^verbatim>\<open>_components\<close> map (\<open>n\<close> is \<^verbatim>\<open>comp_n\<close>). \<open>global\<close> and
  \<open>detailed\<close> are the two parts of \<^verbatim>\<open>_metrics\<close>. \<open>host_calls\<close> and \<open>calls\<close> are not in the
  source: the number of host calls made, and the log of the subscriber calls (the
  notifying Observable, the subscriber, the argument).
\<close>

type_synonym call = "nat \<times> callback \<times> jsval"

record system =
  observables :: "nat list"
  heap :: "nat \<Rightarrow> observable"
  components :: "(nat \<times> component) list"
  global :: global_metrics
  detailed :: "string \<rightharpoonup> js_object list"
  isDetailedMode :: bool
  samplingRate :: jsnum
  maxHistoryItems :: jsnum
  maxIssues :: jsnum
  maxErrors :: jsnum
  nextId :: nat
  host_calls :: nat
  calls :: "call list"

definition empty_global :: global_metrics where
  "empty_global =
     \<lparr>totalReads = 0, totalWrites = 0, totalRenders = 0, slowRenders = 0,
      memoryUsage = [], performanceIssues = [], errors = []\<rparr>"

definition initial_system :: system where
  "initial_system =
     \<lparr>observables = [], heap = (\<lambda>n. fresh_observable Undefined 0 n), components = [],
      global = empty_global, detailed = Map.empty,
      isDetailedMode = False, samplingRate = Fin 1, maxHistoryItems = Fin 1000,
      maxIssues = Fin 100, maxErrors = Fin 50,
      nextId = 1, host_calls = 0, calls = []\<rparr>"

definition tick :: "system \<Rightarrow> system" where
  "tick w = w\<lparr>host_calls := Suc (host_calls w)\<rparr>"

definition num :: "rat \<Rightarrow> jsval" where
  "num r = Num (Fin r)"

text \<open>The trimming after a push: \<^verbatim>\<open>if (xs.length > cap) xs = xs.slice(-cap)\<close>.\<close>

definition trim_to :: "jsnum \<Rightarrow> 'a list \<Rightarrow> 'a list" where
  "trim_to cap xs = (if js_gt (Fin (of_nat (length xs))) cap then slice_last cap xs else xs)"

section \<open>The host environment\<close>

text \<open>
  What a user function does with the Observables while it runs: it reads and writes
  values and subscribes and unsubscribes user functions (\<open>ActUnsubscribe k f\<close> is the call
  of the function that \<^verbatim>\<open>subscribe(f)\<close> returned on the Observable \<open>k\<close>).
\<close>

datatype action =
    ActRead nat
  | ActWrite nat jsval
  | ActSubscribe nat nat
  | ActUnsubscribe nat nat

text \<open>
  What the program takes from its host, as fixed tables: the \<open>i\<close>-th host call of a run
  reads index \<open>i\<close> of the table it needs (the state counts the calls in \<open>host_calls\<close>).
  \<^item> \<open>performance_now\<close>, \<open>Date_now\<close>, \<open>Math_random\<close>: the clock, the wall clock and the
    random draws;
  \<^item> \<open>error_stack\<close>: the text of \<^verbatim>\<open>new Error().stack\<close>;
  \<^item> \<open>performance_memory\<close>: \<^verbatim>\<open>performance.memory\<close> (used and total heap size), \<open>None\<close>
    where the runtime has none;
  \<^item> \<open>stringify_defined\<close>: \<^verbatim>\<open>JSON.stringify\<close> on a value other than \<^verbatim>\<open>undefined\<close>: it
    throws (a \<^verbatim>\<open>toJSON\<close> method can throw any value), returns \<^verbatim>\<open>undefined\<close> (\<open>None\<close>: a
    function, a symbol) or returns a text;
  \<^item> \<open>fl\<close>: the rounding of an arithmetic result to a double;
  \<^item> \<open>user_fn f v w\<close>: what the user's subscriber \<open>f\<close> does when it is called with \<open>v\<close> in
    the state \<open>w\<close>: the actions it takes on the Observables, in order, and then whether it
    returns (\<open>None\<close>) or throws a value;
  \<^item> \<open>compute_fn g\<close>: the user's compute function \<open>g\<close>: the Observables it reads through
    their \<^verbatim>\<open>value\<close> getter, in order, and what it returns or throws from these values.
  Output on the console is not part of the state.
\<close>

record host =
  performance_now :: "nat \<Rightarrow> rat"
  Date_now :: "nat \<Rightarrow> int"
  Math_random :: "nat \<Rightarrow> rat"
  error_stack :: "nat \<Rightarrow> string"
  performance_memory :: "nat \<Rightarrow> (nat \<times> nat) option"
  stringify_defined :: "jsval \<Rightarrow> thrown + string option"
  fl :: "rat \<Rightarrow> rat"
  user_fn :: "nat \<Rightarrow> jsval \<Rightarrow> system \<Rightarrow> action list \<times> thrown option"
  compute_fn :: "nat \<Rightarrow> nat list \<times> (jsval list \<Rightarrow> thrown + jsval)"

definition JSON_stringify :: "host \<Rightarrow> jsval \<Rightarrow> thrown + string option" where
  "JSON_stringify E v = (if v = Undefined then Inr None else stringify_defined E v)"

text \<open>\<^verbatim>\<open>JSON.stringify(v).substring(0, n)\<close>: the receiver is \<^verbatim>\<open>undefined\<close> when the
  value has no JSON text, and reading \<^verbatim>\<open>substring\<close> from it throws a \<^verbatim>\<open>TypeError\<close>.\<close>

definition stringify_substring :: "host \<Rightarrow> jsval \<Rightarrow> nat \<Rightarrow> thrown + string" where
  "stringify_substring E v n =
     (case JSON_stringify E v of
        Inl e \<Rightarrow> Inl e
      | Inr None \<Rightarrow>
          Inl (Err (TypeError ''Cannot read properties of undefined (reading 'substring')''))
      | Inr (Some s) \<Rightarrow> Inr (take n s))"

section \<open>ObservabilitySystem: registering and recording\<close>

text \<open>\<^verbatim>\<open>generateId\<close> takes \<open>nextId\<close> and increments it; \<^verbatim>\<open>Map.set\<close> keeps the position of
  a key that is present.\<close>

definition register :: "system \<Rightarrow> nat \<times> system" where
  "register w =
     (nextId w,
      w\<lparr>nextId := Suc (nextId w),
        observables := (if nextId w \<in> set (observables w) then observables w
                        else observables w @ [nextId w])\<rparr>)"

definition registerComponent :: "component \<Rightarrow> system \<Rightarrow> nat \<times> system" where
  "registerComponent c w =
     (nextId w, w\<lparr>nextId := Suc (nextId w),
                   components := AList.update (nextId w) c (components w)\<rparr>)"

text \<open>
  The names that every plain object inherits from \<^verbatim>\<open>Object.prototype\<close>. \<^verbatim>\<open>detailed\<close> is a
  plain object, so \<^verbatim>\<open>detailed[name]\<close> is defined for them from the start, and it is not an
  array.
\<close>

definition Object_prototype_keys :: "string list" where
  "Object_prototype_keys =
     [''constructor'', ''__defineGetter__'', ''__defineSetter__'', ''hasOwnProperty'',
      ''__lookupGetter__'', ''__lookupSetter__'', ''isPrototypeOf'', ''propertyIsEnumerable'',
      ''toString'', ''valueOf'', ''__proto__'', ''toLocaleString'']"

text \<open>
  \<^verbatim>\<open>recordMetric(name, value, tags)\<close>: the thrown error, if any, and the state it leaves.
  \<open>detailed\<close> holds the own properties of the object \<^verbatim>\<open>detailed\<close>. For an inherited name
  the test \<^verbatim>\<open>!detailed[name]\<close> is false and \<^verbatim>\<open>detailed[name].push\<close> is \<^verbatim>\<open>undefined\<close>: the
  call throws a \<^verbatim>\<open>TypeError\<close> once its argument is evaluated.
\<close>

definition recordMetric ::
  "host \<Rightarrow> string \<Rightarrow> jsval \<Rightarrow> js_object \<Rightarrow> system \<Rightarrow> js_error option \<times> system" where
  "recordMetric E name v tags w =
     (let r = Math_random E (host_calls w); w1 = tick w in
      if js_gt (Fin r) (samplingRate w1) then (None, w1)
      else
        let t = Date_now E (host_calls w1);
            w2 = tick w1
        in if name \<in> set Object_prototype_keys then
             (Some (TypeError ''this._metrics.detailed[name].push is not a function''), w2)
           else
             let series = (case detailed w2 name of None \<Rightarrow> [] | Some xs \<Rightarrow> xs);
                 pushed = series @ [spread [(''value'', v), (''timestamp'', num (of_int t))] tags]
             in (None, w2\<lparr>detailed := (detailed w2)(name \<mapsto> trim_to (maxHistoryItems w2) pushed)\<rparr>))"

text \<open>
  \<^verbatim>\<open>recordError(type, error, context)\<close>: the thrown error, if any, and the state it
  leaves. The first property read is \<^verbatim>\<open>error.message\<close>, which throws a \<^verbatim>\<open>TypeError\<close> for
  \<^verbatim>\<open>null\<close> and \<^verbatim>\<open>undefined\<close>, before anything is pushed.
\<close>

definition recordError ::
  "host \<Rightarrow> string \<Rightarrow> thrown \<Rightarrow> js_object \<Rightarrow> system \<Rightarrow> js_error option \<times> system" where
  "recordError E type error context w =
     (if error = Val Undefined then
        (Some (TypeError ''Cannot read properties of undefined (reading 'message')''), w)
      else if error = Val Null then
        (Some (TypeError ''Cannot read properties of null (reading 'message')''), w)
      else
        let t = Date_now E (host_calls w);
            w1 = tick w;
            pushed = errors (global w1) @
              [\<lparr>err_type = type, err = error, err_context = context, err_timestamp = t\<rparr>]
        in (None, w1\<lparr>global := (global w1)\<lparr>errors := trim_to (maxErrors w1) pushed\<rparr>\<rparr>))"

definition reportPerformanceIssue :: "host \<Rightarrow> js_object \<Rightarrow> system \<Rightarrow> system" where
  "reportPerformanceIssue E issue w =
     (let t = Date_now E (host_calls w);
          w1 = tick w;
          fullIssue = spread issue [(''timestamp'', num (of_int t))];
          pushed = performanceIssues (global w1) @ [fullIssue]
      in w1\<lparr>global := (global w1)\<lparr>performanceIssues := trim_to (maxIssues w1) pushed\<rparr>\<rparr>)"

text \<open>\<^verbatim>\<open>resetMetrics()\<close>\<close>

definition resetMetrics :: "system \<Rightarrow> system" where
  "resetMetrics w = w\<lparr>global := empty_global, detailed := Map.empty\<rparr>"

text \<open>
  \<^verbatim>\<open>configure(options)\<close>. An option that is absent reads as \<^verbatim>\<open>undefined\<close>;
  \<^verbatim>\<open>typeof x === 'number'\<close> holds for the values \<open>Num n\<close>.
\<close>

record options =
  opt_isDetailedMode :: jsval
  opt_samplingRate :: jsval
  opt_maxHistoryItems :: jsval
  opt_maxIssues :: jsval
  opt_maxErrors :: jsval


definition configure :: "options \<Rightarrow> system \<Rightarrow> system" where
  "configure opts w =
     (let w1 = (if opt_isDetailedMode opts \<noteq> Undefined
                then w\<lparr>isDetailedMode := to_boolean (opt_isDetailedMode opts)\<rparr> else w);
          w2 = (case opt_samplingRate opts of
                  Num n \<Rightarrow> w1\<lparr>samplingRate := Math_max (Fin 0) (Math_min (Fin 1) n)\<rparr>
                | _ \<Rightarrow> w1);
          w3 = (case opt_maxHistoryItems opts of
                  Num n \<Rightarrow> w2\<lparr>maxHistoryItems := Math_max (Fin 10) n\<rparr>
                | _ \<Rightarrow> w2);
          w4 = (case opt_maxIssues opts of
                  Num n \<Rightarrow> w3\<lparr>maxIssues := Math_max (Fin 10) n\<rparr>
                | _ \<Rightarrow> w3);
          w5 = (case opt_maxErrors opts of
                  Num n \<Rightarrow> w4\<lparr>maxErrors := Math_max (Fin 10) n\<rparr>
                | _ \<Rightarrow> w4)
      in w5)"

text \<open>
  The body of the timer of \<^verbatim>\<open>startPeriodicCollection\<close> without its last statement (the
  call of \<^verbatim>\<open>updateGlobalCounters\<close>, added in \<open>periodic_collection\<close> below).
\<close>

definition collect_memory :: "host \<Rightarrow> system \<Rightarrow> system" where
  "collect_memory E w =
     (case performance_memory E (host_calls w) of
        None \<Rightarrow> tick w
      | Some (usedSize, totalSize) \<Rightarrow>
          let w1 = tick w;
              t = Date_now E (host_calls w1);
              w2 = tick w1;
              pushed = memoryUsage (global w2) @
                [\<lparr>usedJSHeapSize = usedSize, totalJSHeapSize = totalSize, mem_timestamp = t\<rparr>]
          in w2\<lparr>global := (global w2)\<lparr>memoryUsage := trim_to (maxHistoryItems w2) pushed\<rparr>\<rparr>)"

section \<open>Observable: constructor, getter, setter\<close>

definition upd_obs :: "nat \<Rightarrow> (observable \<Rightarrow> observable) \<Rightarrow> system \<Rightarrow> system" where
  "upd_obs k f w = w\<lparr>heap := (heap w)(k := f (heap w k))\<rparr>"

definition new_Observable :: "host \<Rightarrow> jsval \<Rightarrow> system \<Rightarrow> nat \<times> system" where
  "new_Observable E initialValue w =
     (let t = Date_now E (host_calls w);
          w1 = tick w;
          (n, w2) = register w1
      in (n, w2\<lparr>heap := (heap w2)(n := fresh_observable initialValue t n)\<rparr>))"

text \<open>
  \<^verbatim>\<open>get value()\<close> of the Observable with key \<open>k\<close>. The metric names that the library
  itself passes to \<^verbatim>\<open>recordMetric\<close> are not inherited names, so these calls return, and the
  state they leave is taken.
\<close>

definition get_value :: "host \<Rightarrow> nat \<Rightarrow> system \<Rightarrow> jsval \<times> system" where
  "get_value E k w =
     (let startTime = performance_now E (host_calls w);
          w1 = tick w;
          t = Date_now E (host_calls w1);
          w2 = upd_obs k (\<lambda>obs. obs\<lparr>metrics := (metrics obs)
                 \<lparr>reads := Suc (reads (metrics obs)), lastAccessed := t\<rparr>\<rparr>) (tick w1);
          w3 = (if isDetailedMode w2 then
                  let stack = error_stack E (host_calls w2);
                      w2a = tick w2;
                      ts = Date_now E (host_calls w2a)
                  in upd_obs k (\<lambda>obs. obs\<lparr>metrics := (metrics obs)
                       \<lparr>history := history (metrics obs) @ [HistRead ts stack]\<rparr>\<rparr>) (tick w2a)
                else w2);
          v = val (heap w3 k);
          endTime = performance_now E (host_calls w3);
          w4 = tick w3
      in (v, snd (recordMetric E ''readTime'' (num (fl E (endTime - startTime))) [] w4)))"

text \<open>
  The notification loop of the setter, \<^verbatim>\<open>this._subscribers.forEach(...)\<close>, for the
  Observable \<open>k\<close>, from the entry \<open>i\<close> of the set on. \<^verbatim>\<open>forEach\<close> walks the entries of the set
  as they are when it reaches them: it steps over an emptied entry and it visits an entry
  added while it runs. Each subscriber is called inside its own \<^verbatim>\<open>try\<close>; a thrown value
  goes to \<^verbatim>\<open>recordError('subscriberError', error)\<close>, and when that call throws, its error
  leaves the loop and the setter. \<open>run cb v w\<close> is the call of the function object \<open>cb\<close>:
  \<open>None\<close> when it does not return, else the value it threw, if any, and the state it
  leaves. The result of the loop is \<open>None\<close> when it does not end.
\<close>

partial_function (option) notify_with ::
  "host \<Rightarrow> (callback \<Rightarrow> jsval \<Rightarrow> system \<Rightarrow> (thrown option \<times> system) option) \<Rightarrow>
   nat \<Rightarrow> nat \<Rightarrow> jsval \<Rightarrow> system \<Rightarrow> (js_error option \<times> system) option" where
  "notify_with E run k i v w =
     (if i < length (entries (heap w k)) then
        (case entries (heap w k) ! i of
           None \<Rightarrow> notify_with E run k (Suc i) v w
         | Some cb \<Rightarrow>
             (case run cb v (w\<lparr>calls := calls w @ [(k, cb, v)]\<rparr>) of
                None \<Rightarrow> None
              | Some (None, w1) \<Rightarrow> notify_with E run k (Suc i) v w1
              | Some (Some error, w1) \<Rightarrow>
                  (case recordError E ''subscriberError'' error [] w1 of
                     (Some e, w2) \<Rightarrow> Some (Some e, w2)
                   | (None, w2) \<Rightarrow> notify_with E run k (Suc i) v w2)))
      else Some (None, w))"

text \<open>The end of the setter: \<^verbatim>\<open>recordMetric('writeTime', endTime - startTime)\<close>.\<close>

definition finish_write :: "host \<Rightarrow> rat \<Rightarrow> system \<Rightarrow> system" where
  "finish_write E startTime w =
     (let endTime = performance_now E (host_calls w);
          w1 = tick w
      in snd (recordMetric E ''writeTime'' (num (fl E (endTime - startTime))) [] w1))"

text \<open>
  \<^verbatim>\<open>set value(newValue)\<close> of the Observable with key \<open>k\<close>, in the order of the source:
  \<open>begin_write\<close> is its start (the counter \<open>writes\<close> and, in detailed mode, the history
  entry), \<open>end_notify\<close> the two metrics recorded after the notification loop and
  \<open>finish_write\<close> its end. The result is the error the setter throws, if any, and the state
  it leaves; an error that leaves the notification loop leaves the setter at once.
\<close>

definition begin_write :: "host \<Rightarrow> nat \<Rightarrow> jsval \<Rightarrow> system \<Rightarrow> system" where
  "begin_write E k newValue w =
     (let w1 = upd_obs k (\<lambda>obs. obs\<lparr>metrics := (metrics obs)
                 \<lparr>writes := Suc (writes (metrics obs))\<rparr>\<rparr>) (tick w)
      in if isDetailedMode w1 then
           let stack = error_stack E (host_calls w1);
               w1a = tick w1;
               ts = Date_now E (host_calls w1a)
           in upd_obs k (\<lambda>obs. obs\<lparr>metrics := (metrics obs)
                \<lparr>history := history (metrics obs) @
                   [HistWrite ts (val obs) newValue stack]\<rparr>\<rparr>) (tick w1a)
         else w1)"

definition end_notify :: "host \<Rightarrow> nat \<Rightarrow> rat \<Rightarrow> system \<Rightarrow> system" where
  "end_notify E k updateStartTime w =
     (let updateEndTime = performance_now E (host_calls w);
          w1 = snd (recordMetric E ''updateTime''
                 (num (fl E (updateEndTime - updateStartTime))) [] (tick w))
      in snd (recordMetric E ''subscriberCount''
           (num (of_nat (length (subscribers (heap w1 k))))) [] w1))"

definition set_value_with ::
  "host \<Rightarrow> (callback \<Rightarrow> jsval \<Rightarrow> system \<Rightarrow> (thrown option \<times> system) option) \<Rightarrow>
   nat \<Rightarrow> jsval \<Rightarrow> system \<Rightarrow> (js_error option \<times> system) option" where
  "set_value_with E run k newValue w =
     (let startTime = performance_now E (host_calls w);
          w2 = begin_write E k newValue w
      in if \<not> Object_is (val (heap w2 k)) newValue then
           let w3 = upd_obs k (\<lambda>obs. obs\<lparr>val := newValue\<rparr>) w2;
               updateStartTime = performance_now E (host_calls w3)
           in case notify_with E run k 0 newValue (tick w3) of
                None \<Rightarrow> None
              | Some (Some e, w4) \<Rightarrow> Some (Some e, w4)
              | Some (None, w4) \<Rightarrow>
                  Some (None, finish_write E startTime (end_notify E k updateStartTime w4))
         else Some (None, finish_write E startTime w2))"

section \<open>Observable: getMetrics\<close>

record snapshot =
  snap_id :: nat
  snap_value :: string
  snap_metrics :: metrics_rec
  snap_compute :: "(string \<times> compute_metrics) option"

text \<open>\<^verbatim>\<open>Observable.prototype.getMetrics\<close>: the spread of \<^verbatim>\<open>_metrics\<close> is \<open>snap_metrics\<close>.\<close>

definition Observable_getMetrics :: "host \<Rightarrow> observable \<Rightarrow> thrown + snapshot" where
  "Observable_getMetrics E obs =
     (case stringify_substring E (val obs) 100 of
        Inl e \<Rightarrow> Inl e
      | Inr s \<Rightarrow>
          Inr \<lparr>snap_id = ident obs, snap_value = s, snap_metrics = metrics obs,
               snap_compute = None\<rparr>)"

text \<open>
  \<^verbatim>\<open>obs.getMetrics()\<close>: a cell made by \<^verbatim>\<open>computed\<close> carries the override that calls the
  original method and adds \<^verbatim>\<open>isComputed\<close>, \<^verbatim>\<open>name\<close> and \<^verbatim>\<open>compute\<close>.
\<close>

definition obs_getMetrics :: "host \<Rightarrow> observable \<Rightarrow> thrown + snapshot" where
  "obs_getMetrics E obs =
     (case computed_of obs of
        None \<Rightarrow> Observable_getMetrics E obs
      | Some ci \<Rightarrow>
          (case Observable_getMetrics E obs of
             Inl e \<Rightarrow> Inl e
           | Inr s \<Rightarrow> Inr (s\<lparr>snap_compute := Some (computeName ci, computeMetrics ci)\<rparr>)))"

section \<open>Computed\<close>

text \<open>The call \<^verbatim>\<open>computeFn()\<close>: the reads through the getter, then the function's result.\<close>

fun read_all :: "host \<Rightarrow> nat list \<Rightarrow> system \<Rightarrow> jsval list \<times> system" where
  "read_all E [] w = ([], w)"
| "read_all E (r # rs) w =
     (let (v, w1) = get_value E r w;
          (vs, w2) = read_all E rs w1
      in (v # vs, w2))"

definition call_computeFn :: "host \<Rightarrow> nat \<Rightarrow> system \<Rightarrow> (thrown + jsval) \<times> system" where
  "call_computeFn E g w =
     (let (vs, w1) = read_all E (fst (compute_fn E g)) w
      in (snd (compute_fn E g) vs, w1))"

definition upd_compute ::
  "nat \<Rightarrow> (compute_metrics \<Rightarrow> compute_metrics) \<Rightarrow> system \<Rightarrow> system" where
  "upd_compute c f w =
     upd_obs c (\<lambda>obs. obs\<lparr>computed_of :=
       map_option (\<lambda>ci. ci\<lparr>computeMetrics := f (computeMetrics ci)\<rparr>) (computed_of obs)\<rparr>) w"

text \<open>
  The \<^verbatim>\<open>catch\<close> block of \<^verbatim>\<open>performComputation\<close>: the counter, then \<^verbatim>\<open>recordError\<close>, then
  \<^verbatim>\<open>throw error\<close>. When \<^verbatim>\<open>recordError\<close> throws, its error is what leaves the block.
\<close>

definition compute_failed ::
  "host \<Rightarrow> nat \<Rightarrow> computed_info \<Rightarrow> thrown \<Rightarrow> system \<Rightarrow> (thrown + jsval) \<times> system" where
  "compute_failed E c ci error w =
     (let w1 = upd_compute c (\<lambda>m. m\<lparr>compute_errors := Suc (compute_errors m)\<rparr>) w
      in case recordError E ''computeError'' error
                [(''name'', Str (computeName ci)),
                 (''dependencies'', num (of_nat (length (deps ci))))] w1 of
           (Some e, w2) \<Rightarrow> (Inl (Err e), w2)
         | (None, w2) \<Rightarrow> (Inl error, w2))"

text \<open>
  \<^verbatim>\<open>performComputation\<close> of the computed cell \<open>c\<close>: what it throws or returns, and the
  state it leaves. The \<^verbatim>\<open>try\<close> block holds the call of the compute function, the write to
  the cell (whose setter can throw) and then (\<open>end_computation\<close>) the metrics and the report
  of a slow computation, whose preview \<^verbatim>\<open>JSON.stringify(newValue).substring(0, 50)\<close> can
  throw as well. The result is \<open>None\<close> when the write does not return or \<open>c\<close> is not a
  computed cell (no such closure exists then).
\<close>

definition end_computation ::
  "host \<Rightarrow> nat \<Rightarrow> computed_info \<Rightarrow> rat \<Rightarrow> jsval \<Rightarrow> system \<Rightarrow> (thrown + jsval) \<times> system" where
  "end_computation E c ci computeStart newValue w =
     (let computeEnd = performance_now E (host_calls w);
          thisComputeTime = fl E (computeEnd - computeStart);
          w1 = upd_compute c (\<lambda>m. m
                 \<lparr>lastComputeTime := thisComputeTime,
                  averageComputeTime :=
                    fl E (fl E (fl E (averageComputeTime m * of_nat (totalComputations m - 1))
                                + thisComputeTime)
                          / of_nat (totalComputations m))\<rparr>) (tick w);
          w2 = upd_obs c (\<lambda>obs. obs\<lparr>metrics := (metrics obs)
                 \<lparr>computeTime := fl E (computeTime (metrics obs) + thisComputeTime)\<rparr>\<rparr>) w1;
          w3 = snd (recordMetric E ''derivedComputeTime'' (num thisComputeTime) [] w2)
      in if 10 < thisComputeTime then
           (case stringify_substring E newValue 50 of
              Inl error \<Rightarrow> compute_failed E c ci error w3
            | Inr preview \<Rightarrow>
                (Inr newValue,
                 reportPerformanceIssue E
                   [(''type'', Str ''slowComputation''),
                    (''name'', Str (computeName ci)),
                    (''computeTime'', num thisComputeTime),
                    (''value'', Str preview)] w3))
         else (Inr newValue, w3))"

definition performComputation_with ::
  "host \<Rightarrow> (callback \<Rightarrow> jsval \<Rightarrow> system \<Rightarrow> (thrown option \<times> system) option) \<Rightarrow>
   nat \<Rightarrow> system \<Rightarrow> ((thrown + jsval) \<times> system) option" where
  "performComputation_with E run c w =
     (case computed_of (heap w c) of
        None \<Rightarrow> None
      | Some ci \<Rightarrow>
          let computeStart = performance_now E (host_calls w);
              w1 = upd_compute c (\<lambda>m. m\<lparr>totalComputations := Suc (totalComputations m)\<rparr>)
                     (tick w)
          in case call_computeFn E (computeFn ci) w1 of
               (Inl error, w2) \<Rightarrow> Some (compute_failed E c ci error w2)
             | (Inr newValue, w2) \<Rightarrow>
                 (case set_value_with E run c newValue w2 of
                    None \<Rightarrow> None
                  | Some (Some e, w3) \<Rightarrow> Some (compute_failed E c ci (Err e) w3)
                  | Some (None, w3) \<Rightarrow> Some (end_computation E c ci computeStart newValue w3)))"

section \<open>Calls of subscribers\<close>

text \<open>
  The actions of a user function, in order. An action that throws (a write whose setter
  throws) ends the function, which throws that error on.
\<close>

fun run_actions ::
  "host \<Rightarrow> (callback \<Rightarrow> jsval \<Rightarrow> system \<Rightarrow> (thrown option \<times> system) option) \<Rightarrow>
   action list \<Rightarrow> system \<Rightarrow> (js_error option \<times> system) option" where
  "run_actions E run [] w = Some (None, w)"
| "run_actions E run (ActRead k # as) w = run_actions E run as (snd (get_value E k w))"
| "run_actions E run (ActWrite k v # as) w =
     (case set_value_with E run k v w of
        None \<Rightarrow> None
      | Some (Some e, w1) \<Rightarrow> Some (Some e, w1)
      | Some (None, w1) \<Rightarrow> run_actions E run as w1)"
| "run_actions E run (ActSubscribe k f # as) w =
     run_actions E run as
       (case subscribe (Some (UserFn f)) (heap w k) of
          Inl e \<Rightarrow> w
        | Inr obs \<Rightarrow> w\<lparr>heap := (heap w)(k := obs)\<rparr>)"
| "run_actions E run (ActUnsubscribe k f # as) w =
     run_actions E run as (upd_obs k (unsubscribe (UserFn f)) w)"

definition call_user ::
  "host \<Rightarrow> (callback \<Rightarrow> jsval \<Rightarrow> system \<Rightarrow> (thrown option \<times> system) option) \<Rightarrow>
   nat \<Rightarrow> jsval \<Rightarrow> system \<Rightarrow> (thrown option \<times> system) option" where
  "call_user E run f v w =
     (case run_actions E run (fst (user_fn E f v w)) w of
        None \<Rightarrow> None
      | Some (Some e, w1) \<Rightarrow> Some (Some (Err e), w1)
      | Some (None, w1) \<Rightarrow> Some (snd (user_fn E f v w), w1))"

text \<open>
  The call of a subscriber. A user function acts and then returns or throws as the host
  says. The listener of a computed cell is
  \<^verbatim>\<open>() => { try { performComputation(); } catch (error) {} }\<close>: it never throws. \<open>fuel\<close>
  bounds the nesting of the writes and recomputations that one call starts; \<open>None\<close> is a
  nesting deeper than that.
\<close>

primrec invoke ::
  "host \<Rightarrow> nat \<Rightarrow> callback \<Rightarrow> jsval \<Rightarrow> system \<Rightarrow> (thrown option \<times> system) option" where
  "invoke E 0 cb v w =
     (case cb of
        UserFn f \<Rightarrow> call_user E (\<lambda>cb' v' w'. None) f v w
      | DepListener c j \<Rightarrow> None)"
| "invoke E (Suc fuel) cb v w =
     (case cb of
        UserFn f \<Rightarrow> call_user E (invoke E fuel) f v w
      | DepListener c j \<Rightarrow>
          (case performComputation_with E (invoke E fuel) c w of
             None \<Rightarrow> None
           | Some (r, w1) \<Rightarrow> Some (None, w1)))"

definition set_value ::
  "host \<Rightarrow> nat \<Rightarrow> nat \<Rightarrow> jsval \<Rightarrow> system \<Rightarrow> (js_error option \<times> system) option" where
  "set_value E fuel k newValue w = set_value_with E (invoke E fuel) k newValue w"

definition performComputation ::
  "host \<Rightarrow> nat \<Rightarrow> nat \<Rightarrow> system \<Rightarrow> ((thrown + jsval) \<times> system) option" where
  "performComputation E fuel c w = performComputation_with E (invoke E fuel) c w"

text \<open>\<^verbatim>\<open>result.recompute = performComputation\<close>\<close>

definition recompute ::
  "host \<Rightarrow> nat \<Rightarrow> nat \<Rightarrow> system \<Rightarrow> ((thrown + jsval) \<times> system) option" where
  "recompute E fuel c w = performComputation E fuel c w"

text \<open>
  \<^verbatim>\<open>deps.map(dep => ...)\<close>: the \<open>j\<close>-th entry, when it is subscribable, gets the listener
  \<open>DepListener c j\<close> of the cell \<open>c\<close>; an entry that is not gets a warning and no subscription.
\<close>

fun subscribe_deps :: "nat \<Rightarrow> nat \<Rightarrow> nat option list \<Rightarrow> system \<Rightarrow> system" where
  "subscribe_deps c j [] w = w"
| "subscribe_deps c j (None # ds) w = subscribe_deps c (Suc j) ds w"
| "subscribe_deps c j (Some d # ds) w =
     subscribe_deps c (Suc j) ds
       (case subscribe (Some (DepListener c j)) (heap w d) of
          Inl e \<Rightarrow> w
        | Inr obs \<Rightarrow> w\<lparr>heap := (heap w)(d := obs)\<rparr>)"

record computed_options =
  opt_lazy :: bool
  opt_name :: string


text \<open>
  \<^verbatim>\<open>computed(computeFn, deps, options)\<close>: \<open>computeFn\<close> is \<open>None\<close> when the argument is not a
  function and \<open>deps\<close> is \<open>None\<close> when it is not an array. The first evaluation runs in a
  \<^verbatim>\<open>try\<close> whose \<^verbatim>\<open>catch\<close> only warns.
\<close>

definition computed ::
  "host \<Rightarrow> nat \<Rightarrow> nat option \<Rightarrow> nat option list option \<Rightarrow> computed_options \<Rightarrow> system \<Rightarrow>
   (js_error + nat \<times> system) option" where
  "computed E fuel fn dependencies opts w =
     (case fn of
        None \<Rightarrow> Some (Inl (JsError ''Error'' ''First argument must be a function''))
      | Some g \<Rightarrow>
          (case dependencies of
             None \<Rightarrow> Some (Inl (JsError ''Error'' ''Dependencies must be an array''))
           | Some ds \<Rightarrow>
               let (c, w1) = new_Observable E Undefined w;
                   w2 = upd_obs c (\<lambda>obs. obs\<lparr>computed_of := Some
                          \<lparr>computeName = opt_name opts, computeFn = g, deps = ds,
                           computeMetrics = \<lparr>totalComputations = 0, lastComputeTime = 0,
                             averageComputeTime = 0, compute_errors = 0\<rparr>\<rparr>\<rparr>) w1
               in if \<not> opt_lazy opts then
                    let startTime = performance_now E (host_calls w2)
                    in case performComputation E fuel c (tick w2) of
                         None \<Rightarrow> None
                       | Some (Inl error, w3) \<Rightarrow> Some (Inr (c, subscribe_deps c 0 ds w3))
                       | Some (Inr v, w3) \<Rightarrow>
                           let endTime = performance_now E (host_calls w3);
                               w4 = snd (recordMetric E ''initialComputeTime''
                                      (num (fl E (endTime - startTime))) [] (tick w3))
                           in Some (Inr (c, subscribe_deps c 0 ds w4))
                  else Some (Inr (c, subscribe_deps c 0 ds w2))))"

text \<open>\<^verbatim>\<open>result.dispose()\<close>: every unsubscribe function of the dependency list is called.\<close>

fun unsubscribe_deps :: "nat \<Rightarrow> nat \<Rightarrow> nat option list \<Rightarrow> system \<Rightarrow> system" where
  "unsubscribe_deps c j [] w = w"
| "unsubscribe_deps c j (None # ds) w = unsubscribe_deps c (Suc j) ds w"
| "unsubscribe_deps c j (Some d # ds) w =
     unsubscribe_deps c (Suc j) ds (upd_obs d (unsubscribe (DepListener c j)) w)"

definition dispose :: "nat \<Rightarrow> system \<Rightarrow> system" where
  "dispose c w =
     (case computed_of (heap w c) of
        None \<Rightarrow> w
      | Some ci \<Rightarrow> unsubscribe_deps c 0 (deps ci) w)"

section \<open>ObservabilitySystem: aggregation\<close>

text \<open>
  A \<^verbatim>\<open>forEach\<close> loop whose body can throw: \<open>body s x\<close> is one step from the accumulated
  state \<open>s\<close>, with the error it throws, if any. An error ends the loop.
\<close>

fun for_each ::
  "('s \<Rightarrow> 'a \<Rightarrow> js_error option \<times> 's) \<Rightarrow> 'a list \<Rightarrow> 's \<Rightarrow> js_error option \<times> 's" where
  "for_each body [] s = (None, s)"
| "for_each body (x # xs) s =
     (case body s x of
        (Some e, s1) \<Rightarrow> (Some e, s1)
      | (None, s1) \<Rightarrow> for_each body xs s1)"

text \<open>
  \<^verbatim>\<open>updateGlobalCounters()\<close>: the two \<^verbatim>\<open>forEach\<close> loops, each step in its own \<^verbatim>\<open>try\<close>
  whose \<^verbatim>\<open>catch\<close> calls \<^verbatim>\<open>recordError\<close>; an error thrown by \<^verbatim>\<open>recordError\<close> leaves the loop
  and the function. The accumulators are the local variables \<open>totalReads\<close>, \<open>totalWrites\<close>
  and \<open>totalRenders\<close>.
\<close>

definition count_observable ::
  "host \<Rightarrow> nat \<times> nat \<times> system \<Rightarrow> nat \<Rightarrow> js_error option \<times> nat \<times> nat \<times> system" where
  "count_observable E acc k =
     (case acc of (tr, tw, w) \<Rightarrow>
        (case obs_getMetrics E (heap w k) of
           Inr m \<Rightarrow> (None, tr + reads (snap_metrics m), tw + writes (snap_metrics m), w)
         | Inl error \<Rightarrow>
             (case recordError E ''metricsError'' error [] w of
                (r, w1) \<Rightarrow> (r, tr, tw, w1))))"

definition count_component ::
  "host \<Rightarrow> nat \<times> system \<Rightarrow> nat \<times> component \<Rightarrow> js_error option \<times> nat \<times> system" where
  "count_component E acc entry =
     (case acc of (tn, w) \<Rightarrow>
        (case comp_getMetrics (snd entry) of
           Inr m \<Rightarrow> (None, tn + renders m, w)
         | Inl error \<Rightarrow>
             (case recordError E ''metricsError'' error [] w of
                (r, w1) \<Rightarrow> (r, tn, w1))))"

definition updateGlobalCounters :: "host \<Rightarrow> system \<Rightarrow> js_error option \<times> system" where
  "updateGlobalCounters E w =
     (case for_each (count_observable E) (observables w) (0, 0, w) of
        (Some e, tr, tw, w1) \<Rightarrow> (Some e, w1)
      | (None, tr, tw, w1) \<Rightarrow>
          (case for_each (count_component E) (components w1) (0, w1) of
             (Some e, tn, w2) \<Rightarrow> (Some e, w2)
           | (None, tn, w2) \<Rightarrow>
               (None, w2\<lparr>global := (global w2)
                  \<lparr>totalReads := tr, totalWrites := tw, totalRenders := tn\<rparr>\<rparr>)))"

text \<open>\<^verbatim>\<open>getMetrics(includeDetailed)\<close>: \<open>None\<close> is the \<^verbatim>\<open>null\<close> of the \<^verbatim>\<open>detailed\<close> field.\<close>

record metrics_report =
  report_global :: global_metrics
  report_detailed :: "(string \<rightharpoonup> js_object list) option"

definition getMetrics :: "host \<Rightarrow> bool \<Rightarrow> system \<Rightarrow> (js_error + metrics_report) \<times> system" where
  "getMetrics E includeDetailed w =
     (case updateGlobalCounters E w of
        (Some e, w1) \<Rightarrow> (Inl e, w1)
      | (None, w1) \<Rightarrow>
          (Inr \<lparr>report_global = global w1,
                report_detailed =
                  (if includeDetailed \<or> isDetailedMode w1 then Some (detailed w1) else None)\<rparr>,
           w1))"

definition periodic_collection :: "host \<Rightarrow> system \<Rightarrow> js_error option \<times> system" where
  "periodic_collection E w = updateGlobalCounters E (collect_memory E w)"

section \<open>ObservabilitySystem: hotspots\<close>

record hot_component =
  hc_id :: nat
  hc_component :: string
  hc_renders :: nat
  hc_averageRenderTime :: rat
  hc_lastRenderTime :: rat

record hot_observable =
  ho_id :: nat
  ho_writes :: nat
  ho_reads :: nat
  ho_subscribers :: int
  ho_value :: string

definition scan_component ::
  "host \<Rightarrow> hot_component list \<times> system \<Rightarrow> nat \<times> component \<Rightarrow>
   js_error option \<times> hot_component list \<times> system" where
  "scan_component E acc entry =
     (case acc of (hot, w) \<Rightarrow>
        (case comp_getMetrics (snd entry) of
           Inr m \<Rightarrow>
             if 10 < renders m \<and> 10 < lastRenderTime m then
               (None,
                hot @ [\<lparr>hc_id = fst entry, hc_component = constructor_name (snd entry),
                        hc_renders = renders m,
                        hc_averageRenderTime = fl E (renderTime m / of_nat (renders m)),
                        hc_lastRenderTime = lastRenderTime m\<rparr>], w)
             else (None, hot, w)
         | Inl error \<Rightarrow>
             (case recordError E ''hotspotAnalysisError'' error [] w of
                (r, w1) \<Rightarrow> (r, hot, w1))))"

text \<open>The preview \<^verbatim>\<open>metrics.value\<close> is a string already, so the conditional of the source
  takes its first branch.\<close>

definition scan_observable ::
  "host \<Rightarrow> hot_observable list \<times> system \<Rightarrow> nat \<Rightarrow>
   js_error option \<times> hot_observable list \<times> system" where
  "scan_observable E acc k =
     (case acc of (hot, w) \<Rightarrow>
        (case obs_getMetrics E (heap w k) of
           Inr m \<Rightarrow>
             if 20 < writes (snap_metrics m) then
               (None,
                hot @ [\<lparr>ho_id = k, ho_writes = writes (snap_metrics m),
                        ho_reads = reads (snap_metrics m),
                        ho_subscribers = subscriptions (snap_metrics m),
                        ho_value = snap_value m\<rparr>], w)
             else (None, hot, w)
         | Inl error \<Rightarrow>
             (case recordError E ''hotspotAnalysisError'' error [] w of
                (r, w1) \<Rightarrow> (r, hot, w1))))"

text \<open>
  \<^verbatim>\<open>xs.sort((a, b) => key(b) - key(a))\<close>: the sort is stable, and the sign of the difference
  of two doubles is the sign of their comparison, so this is the stable sort by decreasing
  key.
\<close>

definition sort_descending :: "('a \<Rightarrow> rat) \<Rightarrow> 'a list \<Rightarrow> 'a list" where
  "sort_descending key xs = sort_key (\<lambda>x. - key x) xs"

definition component_score :: "host \<Rightarrow> hot_component \<Rightarrow> rat" where
  "component_score E c = fl E (of_nat (hc_renders c) * hc_averageRenderTime c)"

definition observable_score :: "hot_observable \<Rightarrow> rat" where
  "observable_score x = of_nat (ho_writes x)"

record hotspots =
  hotComponents :: "hot_component list"
  hotObservables :: "hot_observable list"

definition findHotspots :: "host \<Rightarrow> system \<Rightarrow> (js_error + hotspots) \<times> system" where
  "findHotspots E w =
     (case for_each (scan_component E) (components w) ([], w) of
        (Some e, hotC, w1) \<Rightarrow> (Inl e, w1)
      | (None, hotC, w1) \<Rightarrow>
          (case for_each (scan_observable E) (observables w1) ([], w1) of
             (Some e, hotO, w2) \<Rightarrow> (Inl e, w2)
           | (None, hotO, w2) \<Rightarrow>
               (Inr \<lparr>hotComponents = take 5 (sort_descending (component_score E) hotC),
                     hotObservables = take 5 (sort_descending observable_score hotO)\<rparr>, w2)))"

section \<open>ObservabilitySystem: Prometheus text\<close>

text \<open>The decimal text of a counter (counters stay far below \<open>2^53\<close>).\<close>

definition digit_char :: "nat \<Rightarrow> char" where
  "digit_char d = char_of (48 + d)"

fun show_nat :: "nat \<Rightarrow> string" where
  "show_nat n = (if n < 10 then [digit_char n] else show_nat (n div 10) @ [digit_char (n mod 10)])"

text \<open>\<^verbatim>\<open>String.prototype.trim\<close> on text of ASCII characters.\<close>

definition is_space :: "char \<Rightarrow> bool" where
  "is_space c = (c \<in> set [CHR 0x09, CHR 0x0A, CHR 0x0B, CHR 0x0C, CHR 0x0D, CHR '' ''])"

definition js_trim :: "string \<Rightarrow> string" where
  "js_trim s = rev (dropWhile is_space (rev (dropWhile is_space s)))"

text \<open>The template literal of \<^verbatim>\<open>exportToPrometheus\<close>, from the backquote to the backquote.\<close>

definition prometheus_template :: "global_metrics \<Rightarrow> string" where
  "prometheus_template m =
     ''\<newline># HELP js_total_reads Total number of observable reads\<newline># TYPE js_total_reads counter\<newline>js_total_reads ''
     @ show_nat (totalReads m) @
     ''\<newline>\<newline># HELP js_total_writes Total number of observable writes\<newline># TYPE js_total_writes counter\<newline>js_total_writes ''
     @ show_nat (totalWrites m) @
     ''\<newline>\<newline># HELP js_total_renders Total number of component renders\<newline># TYPE js_total_renders counter\<newline>js_total_renders ''
     @ show_nat (totalRenders m) @
     ''\<newline>\<newline># HELP js_slow_renders Total number of slow component renders\<newline># TYPE js_slow_renders counter\<newline>js_slow_renders ''
     @ show_nat (slowRenders m) @
     ''\<newline>\<newline># HELP js_performance_issues Total number of performance issues\<newline># TYPE js_performance_issues counter\<newline>js_performance_issues ''
     @ show_nat (length (performanceIssues m)) @
     ''\<newline>\<newline># HELP js_errors Total number of errors\<newline># TYPE js_errors counter\<newline>js_errors ''
     @ show_nat (length (errors m)) @
     ''\<newline>    ''"

definition exportToPrometheus :: "host \<Rightarrow> system \<Rightarrow> (js_error + string) \<times> system" where
  "exportToPrometheus E w =
     (case updateGlobalCounters E w of
        (Some e, w1) \<Rightarrow> (Inl e, w1)
      | (None, w1) \<Rightarrow> (Inr (js_trim (prometheus_template (global w1))), w1))"

section \<open>Notions of the properties: metric series and the error log\<close>

text \<open>The series of a metric name: empty while \<^verbatim>\<open>detailed[name]\<close> is not set.\<close>

definition series :: "system \<Rightarrow> string \<Rightarrow> js_object list" where
  "series w name = (case detailed w name of None \<Rightarrow> [] | Some xs \<Rightarrow> xs)"

text \<open>The object that \<^verbatim>\<open>recordMetric\<close> pushes when it is called in the state \<open>w\<close>: the
  random draw is host call \<open>host_calls w\<close> and \<^verbatim>\<open>Date.now()\<close> the next one.\<close>

definition metric_sample :: "host \<Rightarrow> jsval \<Rightarrow> js_object \<Rightarrow> system \<Rightarrow> js_object" where
  "metric_sample E v tags w =
     spread [(''value'', v), (''timestamp'', num (of_int (Date_now E (Suc (host_calls w)))))] tags"


definition sample_value :: "js_object \<Rightarrow> jsval option" where
  "sample_value s = map_of s ''value''"

text \<open>The last \<open>n\<close> elements of a list (all of them when it has fewer).\<close>

definition keep_last :: "nat \<Rightarrow> 'a list \<Rightarrow> 'a list" where
  "keep_last n xs = drop (length xs - n) xs"

text \<open>
  The state that \<^verbatim>\<open>recordMetric\<close> leaves when the name is not an inherited one: after the
  draw, the call is dropped or the sample is pushed and the series trimmed.
\<close>

definition record_sample :: "host \<Rightarrow> string \<Rightarrow> jsval \<Rightarrow> js_object \<Rightarrow> system \<Rightarrow> system" where
  "record_sample E name v tags w =
     (if js_gt (Fin (Math_random E (host_calls w))) (samplingRate w) then tick w
      else (tick (tick w))\<lparr>detailed := (detailed w)
             (name \<mapsto> trim_to (maxHistoryItems w) (series w name @ [metric_sample E v tags w]))\<rparr>)"

text \<open>The state that \<^verbatim>\<open>recordError\<close> leaves when the thrown value is neither \<^verbatim>\<open>null\<close> nor
  \<^verbatim>\<open>undefined\<close>: the entry is pushed and the log trimmed.\<close>

definition push_error :: "host \<Rightarrow> string \<Rightarrow> thrown \<Rightarrow> js_object \<Rightarrow> system \<Rightarrow> system" where
  "push_error E type error context w =
     (tick w)\<lparr>global := (global w)\<lparr>errors := trim_to (maxErrors w) (errors (global w) @
        [\<lparr>err_type = type, err = error, err_context = context,
          err_timestamp = Date_now E (host_calls w)\<rparr>])\<rparr>\<rparr>"

text \<open>\<^verbatim>\<open>recordError(type, e)\<close> for each thrown value of a list, in order, each call in a
  \<^verbatim>\<open>try\<close> of its own.\<close>

definition record_errors :: "host \<Rightarrow> string \<Rightarrow> thrown list \<Rightarrow> system \<Rightarrow> system" where
  "record_errors E type es w = foldl (\<lambda>w' e. snd (recordError E type e [] w')) w es"

text \<open>The type and the thrown value of the entries of the error log, in order.\<close>

definition error_entries :: "system \<Rightarrow> (string \<times> thrown) list" where
  "error_entries w = map (\<lambda>r. (err_type r, err r)) (errors (global w))"

text \<open>What pushes followed by trims leave of a list: its last \<open>\<lfloor>c\<rfloor>\<close> elements for a
  finite cap \<open>c\<close>, all of it for a cap that is infinite or \<^verbatim>\<open>NaN\<close>.\<close>

definition keep_within :: "jsnum \<Rightarrow> 'a list \<Rightarrow> 'a list" where
  "keep_within cap xs = (case cap of Fin c \<Rightarrow> keep_last (nat \<lfloor>c\<rfloor>) xs | _ \<Rightarrow> xs)"

text \<open>The caps that \<^verbatim>\<open>configure\<close> can set and the initial ones: at least 10, infinite, or
  \<^verbatim>\<open>NaN\<close>.\<close>

definition cap_ok :: "jsnum \<Rightarrow> bool" where
  "cap_ok cap = (case cap of Fin c \<Rightarrow> 10 \<le> c | PosInf \<Rightarrow> True | NaN \<Rightarrow> True
                 | NegZero \<Rightarrow> False | NegInf \<Rightarrow> False)"

section \<open>Notions of the properties: lines of a text\<close>






section \<open>Notions of the properties: failing entities\<close>

text \<open>The value that \<^verbatim>\<open>getMetrics()\<close> of a registered Observable or component throws, if it
  throws, and the renders that a component reports.\<close>

definition obs_failure :: "host \<Rightarrow> system \<Rightarrow> nat \<Rightarrow> thrown option" where
  "obs_failure E w k = (case obs_getMetrics E (heap w k) of Inl e \<Rightarrow> Some e | Inr m \<Rightarrow> None)"

definition comp_failure :: "nat \<times> component \<Rightarrow> thrown option" where
  "comp_failure entry = (case comp_getMetrics (snd entry) of Inl e \<Rightarrow> Some e | Inr m \<Rightarrow> None)"


text \<open>The values thrown by the registered entities, in the order in which
  \<^verbatim>\<open>updateGlobalCounters\<close> and \<^verbatim>\<open>findHotspots\<close> call them.\<close>

definition failures :: "host \<Rightarrow> system \<Rightarrow> thrown list" where
  "failures E w =
     List.map_filter (obs_failure E w) (observables w)
     @ List.map_filter comp_failure (components w)"

definition hot_failures :: "host \<Rightarrow> system \<Rightarrow> thrown list" where
  "hot_failures E w =
     List.map_filter comp_failure (components w)
     @ List.map_filter (obs_failure E w) (observables w)"

text \<open>No registered entity throws \<^verbatim>\<open>null\<close> or \<^verbatim>\<open>undefined\<close> from its \<^verbatim>\<open>getMetrics()\<close>.\<close>

definition safe_registry :: "host \<Rightarrow> system \<Rightarrow> bool" where
  "safe_registry E w = list_all (\<lambda>t. \<not> nullish t) (failures E w)"




section \<open>Concrete hosts and states\<close>

text \<open>A host whose clocks return the index of the call, whose random draws are all
  \<open>1/2\<close>, without rounding, whose user functions do nothing and return and whose compute
  functions read nothing and return \<^verbatim>\<open>null\<close>.\<close>

definition plain_host :: host where
  "plain_host =
     \<lparr>performance_now = (\<lambda>i. of_nat i), Date_now = (\<lambda>i. int i), Math_random = (\<lambda>i. 1 / 2),
      error_stack = (\<lambda>i. ''at main''), performance_memory = (\<lambda>i. None),
      stringify_defined = (\<lambda>v. Inr (Some ''{}'')), fl = (\<lambda>r. r),
      user_fn = (\<lambda>f v w. ([], None)),
      compute_fn = (\<lambda>g. ([], \<lambda>vs. Inr Null))\<rparr>"








section \<open>Notions of the properties: the steps of a write\<close>

text \<open>What a recomputation leaves of a computed cell as it is: the name, the compute
  function and the dependency list.\<close>

definition static_info :: "computed_info \<Rightarrow> string \<times> nat \<times> nat option list" where
  "static_info ci = (computeName ci, computeFn ci, deps ci)"

text \<open>An update of an Observable that keeps its subscriber set, its id and the static
  part of a computed cell (it changes the value or the counters).\<close>

definition keeps_shape :: "(observable \<Rightarrow> observable) \<Rightarrow> observable \<Rightarrow> bool" where
  "keeps_shape f obs =
     (entries (f obs) = entries obs \<and> ident (f obs) = ident obs \<and>
      map_option static_info (computed_of (f obs)) = map_option static_info (computed_of obs))"

text \<open>
  The state changes that reads, writes, recomputations and calls of subscribers are made
  of. With \<open>strict\<close>, an update of an Observable keeps its shape; without, it is any update
  of one Observable (a user function can subscribe and unsubscribe).
\<close>

inductive prim_step :: "bool \<Rightarrow> host \<Rightarrow> system \<Rightarrow> system \<Rightarrow> bool"
  for strict :: bool and E :: host where
  step_tick: "prim_step strict E w (tick w)"
| step_metric: "prim_step strict E w (record_sample E name v tags w)"
| step_error: "prim_step strict E w (push_error E type e ctx w)"
| step_issue: "prim_step strict E w (reportPerformanceIssue E issue w)"
| step_upd: "strict \<longrightarrow> keeps_shape f (heap w k) \<Longrightarrow> prim_step strict E w (upd_obs k f w)"
| step_call: "prim_step strict E w (w\<lparr>calls := calls w @ [c]\<rparr>)"

definition reach :: "bool \<Rightarrow> host \<Rightarrow> system \<Rightarrow> system \<Rightarrow> bool" where
  "reach strict E = (prim_step strict E)\<^sup>*\<^sup>*"


section \<open>Notions of the properties: operations and bounds\<close>

text \<open>
  The operations of the system on a state, as a caller starts them: those of an
  Observable and of a computed cell by the key of the object, those of the
  \<^verbatim>\<open>ObservabilitySystem\<close>, and a tick of the timer of \<^verbatim>\<open>startPeriodicCollection\<close>. A user
  subscribes and unsubscribes user functions (\<open>None\<close>: an argument that is not a function).
\<close>

datatype operation =
    OpNewObservable jsval
  | OpRead nat
  | OpWrite nat jsval
  | OpSubscribe nat "nat option"
  | OpUnsubscribe nat nat
  | OpSilentSet nat jsval
  | OpComputed "nat option" "nat option list option" computed_options
  | OpRecompute nat
  | OpDispose nat
  | OpRegisterComponent component
  | OpRecordMetric string jsval js_object
  | OpRecordError string thrown js_object
  | OpReportPerformanceIssue js_object
  | OpPeriodicCollection
  | OpUpdateGlobalCounters
  | OpGetMetrics bool
  | OpFindHotspots
  | OpExportToPrometheus
  | OpResetMetrics
  | OpConfigure options

text \<open>\<^verbatim>\<open>o.subscribe(cb)\<close> and the call of the function it returned, on the Observable with
  key \<open>k\<close> of a state.\<close>

definition obs_subscribe :: "nat \<Rightarrow> callback option \<Rightarrow> system \<Rightarrow> js_error + system" where
  "obs_subscribe k arg w =
     (case subscribe arg (heap w k) of
        Inl e \<Rightarrow> Inl e
      | Inr obs \<Rightarrow> Inr (w\<lparr>heap := (heap w)(k := obs)\<rparr>))"

definition obs_unsubscribe :: "nat \<Rightarrow> callback \<Rightarrow> system \<Rightarrow> system" where
  "obs_unsubscribe k cb w = upd_obs k (unsubscribe cb) w"

text \<open>The state an operation leaves, whether it returns or throws; \<open>None\<close> when it does
  neither before the fuel ends. An operation that throws leaves the state it reached (for
  the argument checks of \<^verbatim>\<open>subscribe\<close> and \<^verbatim>\<open>computed\<close>, the state before the call).\<close>

fun step :: "host \<Rightarrow> nat \<Rightarrow> operation \<Rightarrow> system \<Rightarrow> system option" where
  "step E fuel (OpNewObservable v) w = Some (snd (new_Observable E v w))"
| "step E fuel (OpRead k) w = Some (snd (get_value E k w))"
| "step E fuel (OpWrite k v) w = map_option snd (set_value E fuel k v w)"
| "step E fuel (OpSubscribe k f) w =
     (case obs_subscribe k (map_option UserFn f) w of Inl e \<Rightarrow> Some w | Inr w' \<Rightarrow> Some w')"
| "step E fuel (OpUnsubscribe k f) w = Some (obs_unsubscribe k (UserFn f) w)"
| "step E fuel (OpSilentSet k v) w = Some (upd_obs k (silentSet v) w)"
| "step E fuel (OpComputed fn ds opts) w =
     (case computed E fuel fn ds opts w of
        None \<Rightarrow> None
      | Some (Inl e) \<Rightarrow> Some w
      | Some (Inr (c, w')) \<Rightarrow> Some w')"
| "step E fuel (OpRecompute c) w =
     (case computed_of (heap w c) of
        None \<Rightarrow> Some w
      | Some ci \<Rightarrow> map_option snd (recompute E fuel c w))"
| "step E fuel (OpDispose c) w = Some (dispose c w)"
| "step E fuel (OpRegisterComponent c) w = Some (snd (registerComponent c w))"
| "step E fuel (OpRecordMetric name v tags) w = Some (snd (recordMetric E name v tags w))"
| "step E fuel (OpRecordError type e ctx) w = Some (snd (recordError E type e ctx w))"
| "step E fuel (OpReportPerformanceIssue issue) w = Some (reportPerformanceIssue E issue w)"
| "step E fuel OpPeriodicCollection w = Some (snd (periodic_collection E w))"
| "step E fuel OpUpdateGlobalCounters w = Some (snd (updateGlobalCounters E w))"
| "step E fuel (OpGetMetrics inc) w = Some (snd (getMetrics E inc w))"
| "step E fuel OpFindHotspots w = Some (snd (findHotspots E w))"
| "step E fuel OpExportToPrometheus w = Some (snd (exportToPrometheus E w))"
| "step E fuel OpResetMetrics w = Some (resetMetrics w)"
| "step E fuel (OpConfigure opts) w = Some (configure opts w)"


text \<open>A sequence does not exceed a cap: \<^verbatim>\<open>xs.length > cap\<close> is false.\<close>

definition fits :: "jsnum \<Rightarrow> 'a list \<Rightarrow> bool" where
  "fits cap xs = (\<not> js_gt (Fin (of_nat (length xs))) cap)"







section \<open>Notions of the properties: hotspot candidates\<close>

text \<open>A registered component is a candidate when its \<^verbatim>\<open>getMetrics()\<close> returns and
  \<open>renders > 10\<close> and \<open>lastRenderTime > 10\<close>; \<open>hot_component_entry\<close> is the object pushed
  for it.\<close>

definition comp_hot :: "nat \<times> component \<Rightarrow> bool" where
  "comp_hot entry =
     (case comp_getMetrics (snd entry) of
        Inr m \<Rightarrow> 10 < renders m \<and> 10 < lastRenderTime m
      | Inl e \<Rightarrow> False)"

definition hot_component_entry :: "host \<Rightarrow> nat \<times> component \<Rightarrow> hot_component" where
  "hot_component_entry E entry =
     (case comp_getMetrics (snd entry) of
        Inr m \<Rightarrow>
          \<lparr>hc_id = fst entry, hc_component = constructor_name (snd entry),
           hc_renders = renders m,
           hc_averageRenderTime = fl E (renderTime m / of_nat (renders m)),
           hc_lastRenderTime = lastRenderTime m\<rparr>
      | Inl e \<Rightarrow>
          \<lparr>hc_id = fst entry, hc_component = constructor_name (snd entry), hc_renders = 0,
           hc_averageRenderTime = 0, hc_lastRenderTime = 0\<rparr>)"

text \<open>A registered Observable is a candidate when its \<^verbatim>\<open>getMetrics()\<close> returns and
  \<open>writes > 20\<close>.\<close>

definition obs_hot :: "host \<Rightarrow> system \<Rightarrow> nat \<Rightarrow> bool" where
  "obs_hot E w k = (obs_failure E w k = None \<and> 20 < writes (metrics (heap w k)))"

definition hot_observable_entry :: "host \<Rightarrow> system \<Rightarrow> nat \<Rightarrow> hot_observable" where
  "hot_observable_entry E w k =
     \<lparr>ho_id = k, ho_writes = writes (metrics (heap w k)),
      ho_reads = reads (metrics (heap w k)),
      ho_subscribers = subscriptions (metrics (heap w k)),
      ho_value = (case stringify_substring E (val (heap w k)) 100 of
                    Inr s \<Rightarrow> s | Inl e \<Rightarrow> [])\<rparr>"

definition descending :: "('a \<Rightarrow> rat) \<Rightarrow> 'a list \<Rightarrow> bool" where
  "descending key xs = sorted_wrt (\<lambda>a b. key b \<le> key a) xs"

text \<open>The error of \<^verbatim>\<open>JSON.stringify(undefined).substring\<close>.\<close>

definition undefined_substring :: thrown where
  "undefined_substring =
     Err (TypeError ''Cannot read properties of undefined (reading 'substring')'')"

section \<open>Notions of the properties: sequences of writes\<close>

text \<open>\<^verbatim>\<open>o.value = v\<close> for each \<open>v\<close> of a list, in order; a write that throws ends the
  sequence.\<close>

fun write_all ::
  "host \<Rightarrow> nat \<Rightarrow> nat \<Rightarrow> jsval list \<Rightarrow> system \<Rightarrow> (js_error option \<times> system) option" where
  "write_all E fuel k [] w = Some (None, w)"
| "write_all E fuel k (v # vs) w =
     (case set_value E fuel k v w of
        None \<Rightarrow> None
      | Some (Some e, w1) \<Rightarrow> Some (Some e, w1)
      | Some (None, w1) \<Rightarrow> write_all E fuel k vs w1)"

section \<open>Concrete states: an Observable holding undefined\<close>

text \<open>The state after \<^verbatim>\<open>const o = new Observable(0); for (let i = 1; i <= 20; i++)
  o.value = i; o.value = undefined;\<close> on the initial system: 21 writes.\<close>

definition undefined_written :: system where
  "undefined_written =
     (case write_all plain_host 1 1 (map (\<lambda>n. num (of_nat n)) [1..<21] @ [Undefined])
             (snd (new_Observable plain_host (num 0) initial_system)) of
        Some (r, w) \<Rightarrow> w
      | None \<Rightarrow> initial_system)"


chapter \<open>Properties\<close>

section \<open>Sets with emptied entries\<close>

lemma live_append [simp]: "live (xs @ ys) = live xs @ live ys"
  by (induction xs rule: live.induct) simp_all

lemma set_live [simp]: "set (live es) = {x. Some x \<in> set es}"
  by (induction es rule: live.induct) auto

lemma live_set_add: "live (set_add x es) = (if x \<in> set (live es) then live es else live es @ [x])"
  by (simp add: set_add_def)

lemma live_set_delete: "live (set_delete x es) = removeAll x (live es)"
  by (induction es rule: live.induct) (auto simp: set_delete_def)

lemma subscribers_simps [simp]:
  "subscribers (obs\<lparr>metrics := m\<rparr>) = subscribers obs"
  "subscribers (obs\<lparr>val := v\<rparr>) = subscribers obs"
  "subscribers (obs\<lparr>computed_of := c\<rparr>) = subscribers obs"
  "subscribers (obs\<lparr>entries := es\<rparr>) = live es"
  by (simp_all add: subscribers_def)

lemma subscribers_unsubscribe:
  "subscribers (unsubscribe cb obs) = removeAll cb (subscribers obs)"
  by (simp add: unsubscribe_def live_set_delete) (simp add: subscribers_def)

lemma subscribers_subscribe:
  "subscribe (Some cb) obs = Inr obs1 \<Longrightarrow>
   subscribers obs1 = (if cb \<in> set (subscribers obs) then subscribers obs else subscribers obs @ [cb])"
  by (auto simp: subscribe_def live_set_add subscribers_def)

section \<open>Unsubscribing more than once\<close>

lemma unsubscribe_funpow_subscribers:
  "0 < n \<Longrightarrow> subscribers ((unsubscribe cb ^^ n) obs) = removeAll cb (subscribers obs)"
proof (induction n)
  case 0
  then show ?case by simp
next
  case (Suc n)
  show ?case
  proof (cases "n = 0")
    case True
    then show ?thesis by (simp add: subscribers_unsubscribe)
  next
    case False
    with Suc.IH show ?thesis by (simp add: subscribers_unsubscribe)
  qed
qed

lemma unsubscribe_funpow_subscriptions:
  "subscriptions (metrics ((unsubscribe cb ^^ n) obs)) = subscriptions (metrics obs) - int n"
  by (induction n) (simp_all add: unsubscribe_def)

text \<open>
  C10. After \<open>subscribe(cb)\<close>, calling the returned unsubscribe function \<open>n \<ge> 1\<close> times
  leaves \<open>cb\<close> out of the subscriber set (the other subscribers are kept in order) and
  the counter \<open>subscriptions\<close> at its value before the subscription plus \<open>1 - n\<close>: the first
  call removes the callback and takes 1 off, and each further call takes 1 off again.
  On a new Observable, one subscription and two calls leave an empty set and
  \<open>subscriptions = -1\<close>.
\<close>

theorem unsubscribe_not_idempotent:
  "(\<forall>obs cb n. 0 < n \<longrightarrow>
      (\<exists>obs1. subscribe (Some cb) obs = Inr obs1 \<and>
         cb \<in> set (subscribers obs1) \<and>
         subscriptions (metrics obs1) = subscriptions (metrics obs) + 1 \<and>
         subscribers ((unsubscribe cb ^^ n) obs1) = removeAll cb (subscribers obs) \<and>
         subscriptions (metrics ((unsubscribe cb ^^ n) obs1))
           = subscriptions (metrics obs) + 1 - int n))
   \<and> (\<forall>v t i cb. \<exists>obs1. subscribe (Some cb) (fresh_observable v t i) = Inr obs1 \<and>
         subscribers (unsubscribe cb (unsubscribe cb obs1)) = [] \<and>
         subscriptions (metrics (unsubscribe cb (unsubscribe cb obs1))) = - 1)"
proof (intro conjI allI impI)
  fix obs :: observable and cb :: callback and n :: nat
  assume n: "0 < n"
  define obs1 where
    "obs1 = obs\<lparr>metrics := (metrics obs)\<lparr>subscriptions := subscriptions (metrics obs) + 1\<rparr>,
                entries := set_add cb (entries obs)\<rparr>"
  have sub: "subscribe (Some cb) obs = Inr obs1"
    by (simp add: subscribe_def obs1_def)
  have s1: "subscribers obs1
      = (if cb \<in> set (subscribers obs) then subscribers obs else subscribers obs @ [cb])"
    using sub by (rule subscribers_subscribe)
  have mem: "cb \<in> set (subscribers obs1)"
    unfolding s1 by simp
  have cnt: "subscriptions (metrics obs1) = subscriptions (metrics obs) + 1"
    by (simp add: obs1_def)
  have rem: "removeAll cb (subscribers obs1) = removeAll cb (subscribers obs)"
    unfolding s1 by simp
  have a: "subscribers ((unsubscribe cb ^^ n) obs1) = removeAll cb (subscribers obs)"
    using unsubscribe_funpow_subscribers [OF n, where cb = cb and obs = obs1] rem by simp
  have b: "subscriptions (metrics ((unsubscribe cb ^^ n) obs1))
             = subscriptions (metrics obs) + 1 - int n"
    using unsubscribe_funpow_subscriptions [where cb = cb and n = n and obs = obs1] cnt by simp
  show "\<exists>obs1. subscribe (Some cb) obs = Inr obs1 \<and>
         cb \<in> set (subscribers obs1) \<and>
         subscriptions (metrics obs1) = subscriptions (metrics obs) + 1 \<and>
         subscribers ((unsubscribe cb ^^ n) obs1) = removeAll cb (subscribers obs) \<and>
         subscriptions (metrics ((unsubscribe cb ^^ n) obs1))
           = subscriptions (metrics obs) + 1 - int n"
    using sub mem cnt a b by blast
next
  fix v :: jsval and t :: int and i :: nat and cb :: callback
  show "\<exists>obs1. subscribe (Some cb) (fresh_observable v t i) = Inr obs1 \<and>
         subscribers (unsubscribe cb (unsubscribe cb obs1)) = [] \<and>
         subscriptions (metrics (unsubscribe cb (unsubscribe cb obs1))) = - 1"
    by (simp add: subscribe_def fresh_observable_def unsubscribe_def set_add_def set_delete_def
        subscribers_def)
qed

theorem unsubscribe_not_idempotent_witness:
  "\<exists>obs1. subscribe (Some (UserFn 7)) (fresh_observable (Num (Fin 0)) 0 1) = Inr obs1 \<and>
     UserFn 7 \<in> set (subscribers obs1) \<and>
     subscriptions (metrics obs1) = 1 \<and>
     subscribers ((unsubscribe (UserFn 7) ^^ 3) obs1) = [] \<and>
     subscriptions (metrics ((unsubscribe (UserFn 7) ^^ 3) obs1)) = - 2"
proof -
  have "(0::nat) < 3" by simp
  with unsubscribe_not_idempotent
  have "\<exists>obs1. subscribe (Some (UserFn 7)) (fresh_observable (Num (Fin 0)) 0 1) = Inr obs1 \<and>
         UserFn 7 \<in> set (subscribers obs1) \<and>
         subscriptions (metrics obs1) = subscriptions (metrics (fresh_observable (Num (Fin 0)) 0 1)) + 1 \<and>
         subscribers ((unsubscribe (UserFn 7) ^^ 3) obs1)
           = removeAll (UserFn 7) (subscribers (fresh_observable (Num (Fin 0)) 0 1)) \<and>
         subscriptions (metrics ((unsubscribe (UserFn 7) ^^ 3) obs1))
           = subscriptions (metrics (fresh_observable (Num (Fin 0)) 0 1)) + 1 - int 3"
    by blast
  then show ?thesis by (simp add: fresh_observable_def subscribers_def)
qed

section \<open>Trimming a bounded sequence\<close>

lemma js_gt_Fin_Fin: "js_gt (Fin a) (Fin b) = (b < a)"
  by simp

lemma trunc_neg: "0 \<le> c \<Longrightarrow> trunc (- c) = - \<lfloor>c\<rfloor>"
  by (auto simp: trunc_def ceiling_minus)

lemma trim_to_Fin:
  assumes "1 \<le> c"
  shows "trim_to (Fin c) xs = drop (length xs - nat \<lfloor>c\<rfloor>) xs"
proof -
  have fl1: "1 \<le> \<lfloor>c\<rfloor>" using assms by linarith
  have gt: "js_gt (Fin (of_nat (length xs))) (Fin c) = (nat \<lfloor>c\<rfloor> < length xs)"
  proof -
    have "(c < of_nat (length xs)) = (\<lfloor>c\<rfloor> < int (length xs))"
      using floor_less_iff [of c "int (length xs)"] by simp
    then show ?thesis using fl1 by auto
  qed
  have tr: "trunc (- c) = - \<lfloor>c\<rfloor>" using assms by (simp add: trunc_neg)
  show ?thesis
  proof (cases "nat \<lfloor>c\<rfloor> < length xs")
    case True
    have "nat (max (int (length xs) - \<lfloor>c\<rfloor>) 0) = length xs - nat \<lfloor>c\<rfloor>"
      using True fl1 by linarith
    then show ?thesis using True gt tr fl1 by (simp add: trim_to_def Let_def)
  next
    case False
    then show ?thesis using gt by (simp add: trim_to_def)
  qed
qed


lemma keep_last_snoc:
  "0 < n \<Longrightarrow> drop (length (drop (length xs - n) xs @ [y]) - n) (drop (length xs - n) xs @ [y])
     = drop (length (xs @ [y]) - n) (xs @ [y])"
  by (cases "n \<le> length xs") (auto simp: Suc_diff_le)

section \<open>What recordMetric and recordError leave\<close>

lemma recordMetric_eq:
  "recordMetric E name v tags w =
     (if \<not> js_gt (Fin (Math_random E (host_calls w))) (samplingRate w) \<and>
         name \<in> set Object_prototype_keys
      then (Some (TypeError ''this._metrics.detailed[name].push is not a function''),
            tick (tick w))
      else (None, record_sample E name v tags w))"
  by (simp add: recordMetric_def record_sample_def Let_def tick_def series_def metric_sample_def)

lemma recordMetric_own:
  "name \<notin> set Object_prototype_keys \<Longrightarrow>
   recordMetric E name v tags w = (None, record_sample E name v tags w)"
  by (simp add: recordMetric_eq)

lemma library_names:
  "''readTime'' \<notin> set Object_prototype_keys" "''writeTime'' \<notin> set Object_prototype_keys"
  "''updateTime'' \<notin> set Object_prototype_keys"
  "''subscriberCount'' \<notin> set Object_prototype_keys"
  "''derivedComputeTime'' \<notin> set Object_prototype_keys"
  "''initialComputeTime'' \<notin> set Object_prototype_keys"
  by (simp_all add: Object_prototype_keys_def)

lemma recordMetric_library [simp]:
  "recordMetric E ''readTime'' v tags w = (None, record_sample E ''readTime'' v tags w)"
  "recordMetric E ''writeTime'' v tags w = (None, record_sample E ''writeTime'' v tags w)"
  "recordMetric E ''updateTime'' v tags w = (None, record_sample E ''updateTime'' v tags w)"
  "recordMetric E ''subscriberCount'' v tags w
     = (None, record_sample E ''subscriberCount'' v tags w)"
  "recordMetric E ''derivedComputeTime'' v tags w
     = (None, record_sample E ''derivedComputeTime'' v tags w)"
  "recordMetric E ''initialComputeTime'' v tags w
     = (None, record_sample E ''initialComputeTime'' v tags w)"
  by (simp_all only: recordMetric_own library_names not_False_eq_True)

lemma recordError_eq:
  "recordError E type t ctx w =
     (if t = Val Undefined then
        (Some (TypeError ''Cannot read properties of undefined (reading 'message')''), w)
      else if t = Val Null then
        (Some (TypeError ''Cannot read properties of null (reading 'message')''), w)
      else (None, push_error E type t ctx w))"
  by (simp add: recordError_def push_error_def Let_def tick_def)

lemma recordError_pushes:
  "\<not> nullish t \<Longrightarrow> recordError E type t ctx w = (None, push_error E type t ctx w)"
  by (simp add: recordError_eq nullish_def)

lemma recordError_Err [simp]:
  "recordError E type (Err e) ctx w = (None, push_error E type (Err e) ctx w)"
  by (simp add: recordError_eq)

lemma recordError_nullish:
  "nullish t \<Longrightarrow> fst (recordError E type t ctx w) \<noteq> None \<and> snd (recordError E type t ctx w) = w"
  by (auto simp: recordError_eq nullish_def)

lemma recordError_cases:
  obtains (thrown) e where "nullish t" "recordError E type t ctx w = (Some e, w)"
  | (pushed) "\<not> nullish t" "recordError E type t ctx w = (None, push_error E type t ctx w)"
  by (cases "nullish t") (auto simp: recordError_eq nullish_def)

section \<open>Reads, writes and recomputations as sequences of steps\<close>

lemma reach_refl [simp, intro!]: "reach q E w w"
  by (simp add: reach_def)



lemma prim_step_weaken: "prim_step True E w w' \<Longrightarrow> prim_step q E w w'"
  by (induction rule: prim_step.induct) (auto intro: prim_step.intros)

lemma reach_weaken: "reach True E w w' \<Longrightarrow> reach q E w w'"
  unfolding reach_def
  by (induction rule: rtranclp_induct) (auto intro: prim_step_weaken rtranclp.rtrancl_into_rtrancl)






















section \<open>The notification loop\<close>

lemma notify_with_done:
  "\<not> i < length (entries (heap w k)) \<Longrightarrow> notify_with E run k i v w = Some (None, w)"
  by (subst notify_with.simps) simp

lemma notify_with_skip:
  "i < length (entries (heap w k)) \<Longrightarrow> entries (heap w k) ! i = None \<Longrightarrow>
   notify_with E run k i v w = notify_with E run k (Suc i) v w"
  by (subst notify_with.simps) simp

lemma notify_with_visit:
  "i < length (entries (heap w k)) \<Longrightarrow> entries (heap w k) ! i = Some cb \<Longrightarrow>
   notify_with E run k i v w =
     (case run cb v (w\<lparr>calls := calls w @ [(k, cb, v)]\<rparr>) of
        None \<Rightarrow> None
      | Some (None, w1) \<Rightarrow> notify_with E run k (Suc i) v w1
      | Some (Some error, w1) \<Rightarrow>
          (case recordError E ''subscriberError'' error [] w1 of
             (Some e, w2) \<Rightarrow> Some (Some e, w2)
           | (None, w2) \<Rightarrow> notify_with E run k (Suc i) v w2))"
  by (subst notify_with.simps) simp











section \<open>Sampling in recordMetric\<close>











lemma sample_value_metric_sample [simp]:
  "sample_value (metric_sample E v [] w) = Some v"
  by (simp add: sample_value_def metric_sample_def spread_def)

lemma keep_last_keep_last_snoc:
  "0 < n \<Longrightarrow> keep_last n (keep_last n xs @ [y]) = keep_last n (xs @ [y])"
  unfolding keep_last_def by (rule keep_last_snoc)

lemma map_keep_last: "map f (keep_last n xs) = keep_last n (map f xs)"
  by (simp add: keep_last_def drop_map)







section \<open>The caps of the bounded sequences\<close>





lemma series_simps [simp]:
  "series (tick w) = series w"
  "series (upd_obs k f w) = series w"
  "series (w\<lparr>calls := cs\<rparr>) = series w"
  "series (w\<lparr>heap := h\<rparr>) = series w"
  "series (w\<lparr>global := g\<rparr>) = series w"
  by (simp_all add: series_def fun_eq_iff tick_def upd_obs_def)




lemma push_error_frame:
  "heap (push_error E type e ctx w) = heap w"
  "observables (push_error E type e ctx w) = observables w"
  "components (push_error E type e ctx w) = components w"
  "detailed (push_error E type e ctx w) = detailed w"
  "isDetailedMode (push_error E type e ctx w) = isDetailedMode w"
  "samplingRate (push_error E type e ctx w) = samplingRate w"
  "maxHistoryItems (push_error E type e ctx w) = maxHistoryItems w"
  "maxIssues (push_error E type e ctx w) = maxIssues w"
  "maxErrors (push_error E type e ctx w) = maxErrors w"
  "nextId (push_error E type e ctx w) = nextId w"
  "calls (push_error E type e ctx w) = calls w"
  "totalReads (global (push_error E type e ctx w)) = totalReads (global w)"
  "totalWrites (global (push_error E type e ctx w)) = totalWrites (global w)"
  "totalRenders (global (push_error E type e ctx w)) = totalRenders (global w)"
  "slowRenders (global (push_error E type e ctx w)) = slowRenders (global w)"
  "memoryUsage (global (push_error E type e ctx w)) = memoryUsage (global w)"
  "performanceIssues (global (push_error E type e ctx w)) = performanceIssues (global w)"
  by (simp_all add: push_error_def tick_def)








lemma record_errors_Nil [simp]: "record_errors E type [] w = w"
  by (simp add: record_errors_def)

lemma record_errors_Cons [simp]:
  "record_errors E type (e # es) w = record_errors E type es (snd (recordError E type e [] w))"
  by (simp add: record_errors_def)

lemma record_errors_append:
  "record_errors E type (es @ fs) w = record_errors E type fs (record_errors E type es w)"
  by (simp add: record_errors_def)

































section \<open>Aggregation over the registry\<close>

lemma record_errors_frame:
  "heap (record_errors E type es w) = heap w"
  "observables (record_errors E type es w) = observables w"
  "components (record_errors E type es w) = components w"
  "detailed (record_errors E type es w) = detailed w"
  "isDetailedMode (record_errors E type es w) = isDetailedMode w"
  "samplingRate (record_errors E type es w) = samplingRate w"
  "maxHistoryItems (record_errors E type es w) = maxHistoryItems w"
  "maxIssues (record_errors E type es w) = maxIssues w"
  "maxErrors (record_errors E type es w) = maxErrors w"
  "nextId (record_errors E type es w) = nextId w"
  "calls (record_errors E type es w) = calls w"
  "totalReads (global (record_errors E type es w)) = totalReads (global w)"
  "totalWrites (global (record_errors E type es w)) = totalWrites (global w)"
  "totalRenders (global (record_errors E type es w)) = totalRenders (global w)"
  "slowRenders (global (record_errors E type es w)) = slowRenders (global w)"
  "memoryUsage (global (record_errors E type es w)) = memoryUsage (global w)"
  "performanceIssues (global (record_errors E type es w)) = performanceIssues (global w)"
  by (induction es arbitrary: w; simp add: recordError_eq push_error_frame)+

lemma trim_to_unbounded [simp]: "trim_to PosInf xs = xs" "trim_to NaN xs = xs"
  by (simp_all add: trim_to_def)

lemma keep_within_snoc:
  "cap_ok cap \<Longrightarrow> keep_within cap (trim_to cap xs @ [y]) = keep_within cap (xs @ [y])"
proof (cases cap)
  case (Fin c)
  assume "cap_ok cap"
  with Fin have c: "1 \<le> c" by (simp add: cap_ok_def)
  then have n: "0 < nat \<lfloor>c\<rfloor>" by linarith
  show ?thesis
    unfolding Fin keep_within_def jsnum.case trim_to_Fin [OF c]
    using keep_last_keep_last_snoc [OF n, of xs y] by (simp add: keep_last_def)
qed (simp_all add: keep_within_def cap_ok_def)

lemma trim_to_keep_within: "cap_ok cap \<Longrightarrow> trim_to cap xs = keep_within cap xs"
  by (cases cap) (simp_all add: keep_within_def cap_ok_def trim_to_Fin keep_last_def)

lemma map_keep_within: "map f (keep_within cap xs) = keep_within cap (map f xs)"
  by (cases cap) (simp_all add: keep_within_def map_keep_last)

lemma error_entries_push_error:
  "cap_ok (maxErrors w) \<Longrightarrow>
   error_entries (push_error E type e ctx w)
     = keep_within (maxErrors w) (error_entries w @ [(type, e)])"
  by (simp add: error_entries_def push_error_def trim_to_keep_within map_keep_within)

text \<open>The error log after a run of \<^verbatim>\<open>recordError\<close> calls that all push.\<close>

lemma error_entries_record_errors:
  assumes cap: "cap_ok (maxErrors w)" and es: "list_all (\<lambda>t. \<not> nullish t) es"
    and ne: "es \<noteq> [] \<or> fits (maxErrors w) (errors (global w))"
  shows "error_entries (record_errors E type es w)
         = keep_within (maxErrors w) (error_entries w @ map (Pair type) es)"
  using es ne
proof (induction es rule: rev_induct)
  case Nil
  then have "fits (maxErrors w) (errors (global w))" by simp
  then have "keep_within (maxErrors w) (errors (global w)) = errors (global w)"
  proof (cases "maxErrors w")
    case (Fin c)
    assume "fits (maxErrors w) (errors (global w))"
    with Fin have "of_nat (length (errors (global w))) \<le> c" by (simp add: fits_def not_less)
    then have "int (length (errors (global w))) \<le> \<lfloor>c\<rfloor>" by (simp add: le_floor_iff)
    then have "length (errors (global w)) \<le> nat \<lfloor>c\<rfloor>" by linarith
    then show ?thesis using Fin by (simp add: keep_within_def keep_last_def)
  qed (simp_all add: keep_within_def)
  then have "keep_within (maxErrors w) (error_entries w) = error_entries w"
    unfolding error_entries_def by (simp add: map_keep_within [symmetric])
  then show ?case by simp
next
  case (snoc e es)
  let ?w = "record_errors E type es w"
  have n: "\<not> nullish e" and all: "list_all (\<lambda>t. \<not> nullish t) es" using snoc.prems(1) by simp_all
  have m: "maxErrors ?w = maxErrors w" by (simp add: record_errors_frame)
  have step: "record_errors E type (es @ [e]) w = push_error E type e [] ?w"
    by (simp add: record_errors_append recordError_pushes [OF n])
  have "error_entries (push_error E type e [] ?w)
        = keep_within (maxErrors w) (error_entries ?w @ [(type, e)])"
    using error_entries_push_error [of ?w E type e "[]"] cap m by simp
  also have "\<dots> = keep_within (maxErrors w) ((error_entries w @ map (Pair type) es) @ [(type, e)])"
  proof (cases "es = []")
    case True
    then show ?thesis by simp
  next
    case False
    then have ih: "error_entries ?w = keep_within (maxErrors w) (error_entries w @ map (Pair type) es)"
      using snoc.IH [OF all] by simp
    have t: "keep_within (maxErrors w) (error_entries w @ map (Pair type) es)
             = trim_to (maxErrors w) (error_entries w @ map (Pair type) es)"
      using cap by (simp add: trim_to_keep_within)
    show ?thesis unfolding ih t using cap by (rule keep_within_snoc)
  qed
  finally show ?case unfolding step by simp
qed

lemma obs_getMetrics_metrics:
  "obs_getMetrics E obs = Inr m \<Longrightarrow> snap_metrics m = metrics obs \<and> snap_id m = ident obs"
  by (auto simp: obs_getMetrics_def Observable_getMetrics_def split: option.splits sum.splits)

lemma obs_failure_heap: "heap w' = heap w \<Longrightarrow> obs_failure E w' k = obs_failure E w k"
  by (simp add: obs_failure_def)














section \<open>Resetting the metrics\<close>








section \<open>The Prometheus text\<close>


declare show_nat.simps [simp del]



























section \<open>Hotspots\<close>

lemma obs_getMetrics_value:
  "obs_getMetrics E obs = Inr m \<Longrightarrow> stringify_substring E (val obs) 100 = Inr (snap_value m)"
  by (auto simp: obs_getMetrics_def Observable_getMetrics_def split: option.splits sum.splits)

lemma scan_observable_ok:
  "obs_failure E w k = None \<Longrightarrow>
   scan_observable E (hot, w) k =
     (None, if obs_hot E w k then hot @ [hot_observable_entry E w k] else hot, w)"
proof (cases "obs_getMetrics E (heap w k)")
  case (Inl e)
  assume "obs_failure E w k = None"
  with Inl show ?thesis by (simp add: obs_failure_def)
next
  case (Inr m)
  from obs_getMetrics_metrics [OF Inr] obs_getMetrics_value [OF Inr] Inr
  show ?thesis
    by (simp add: scan_observable_def obs_hot_def obs_failure_def hot_observable_entry_def)
qed

lemma scan_observable_failed:
  "obs_failure E w k = Some e \<Longrightarrow>
   scan_observable E (hot, w) k =
     (fst (recordError E ''hotspotAnalysisError'' e [] w), hot,
      snd (recordError E ''hotspotAnalysisError'' e [] w))"
  by (auto simp: scan_observable_def obs_failure_def split_def split: sum.splits)

lemma obs_hot_heap: "heap w' = heap w \<Longrightarrow> obs_hot E w' k = obs_hot E w k"
  by (simp add: obs_hot_def obs_failure_def)

lemma hot_observable_entry_heap:
  "heap w' = heap w \<Longrightarrow> hot_observable_entry E w' k = hot_observable_entry E w k"
  by (simp add: hot_observable_entry_def)

lemma obs_hot_failed: "obs_failure E w k = Some e \<Longrightarrow> \<not> obs_hot E w k"
  by (simp add: obs_hot_def)

lemma for_each_scan_observable:
  "list_all (\<lambda>t. \<not> nullish t) (List.map_filter (obs_failure E w) ks) \<Longrightarrow>
   for_each (scan_observable E) ks (hot, w) =
     (None, hot @ map (hot_observable_entry E w) (filter (obs_hot E w) ks),
      record_errors E ''hotspotAnalysisError'' (List.map_filter (obs_failure E w) ks) w)"
proof (induction ks arbitrary: hot w)
  case Nil
  show ?case by (simp add: List.map_filter_simps)
next
  case (Cons k ks)
  show ?case
  proof (cases "obs_failure E w k")
    case None
    with Cons.prems have "list_all (\<lambda>t. \<not> nullish t) (List.map_filter (obs_failure E w) ks)"
      by (simp add: List.map_filter_simps)
    from Cons.IH [OF this] None show ?thesis
      by (simp add: scan_observable_ok List.map_filter_simps)
  next
    case (Some e)
    with Cons.prems have n: "\<not> nullish e"
      and r: "list_all (\<lambda>t. \<not> nullish t) (List.map_filter (obs_failure E w) ks)"
      by (simp_all add: List.map_filter_simps)
    let ?w = "push_error E ''hotspotAnalysisError'' e [] w"
    have h: "heap ?w = heap w" by (simp add: push_error_frame)
    have f: "obs_failure E ?w = obs_failure E w" "obs_hot E ?w = obs_hot E w"
      "hot_observable_entry E ?w = hot_observable_entry E w"
      by (rule ext, simp add: obs_failure_heap [OF h] obs_hot_heap [OF h]
          hot_observable_entry_heap [OF h])+
    have r': "list_all (\<lambda>t. \<not> nullish t) (List.map_filter (obs_failure E ?w) ks)"
      using r by (simp add: f)
    show ?thesis
      using Some Cons.IH [OF r'] obs_hot_failed [OF Some]
      by (simp add: scan_observable_failed recordError_pushes [OF n] List.map_filter_simps f)
  qed
qed

lemma for_each_scan_observable_throws:
  "\<not> list_all (\<lambda>t. \<not> nullish t) (List.map_filter (obs_failure E w) ks) \<Longrightarrow>
   \<exists>msg. fst (for_each (scan_observable E) ks (hot, w)) = Some (TypeError msg)"
proof (induction ks arbitrary: hot w)
  case Nil
  then show ?case by (simp add: List.map_filter_simps)
next
  case (Cons k ks)
  show ?case
  proof (cases "obs_failure E w k")
    case None
    with Cons.prems have "\<not> list_all (\<lambda>t. \<not> nullish t) (List.map_filter (obs_failure E w) ks)"
      by (simp add: List.map_filter_simps)
    from Cons.IH [OF this] None show ?thesis
      by (simp add: scan_observable_ok)
  next
    case (Some e)
    show ?thesis
    proof (cases "nullish e")
      case True
      then show ?thesis
        using Some by (auto simp: scan_observable_failed recordError_eq nullish_def)
    next
      case False
      let ?w = "push_error E ''hotspotAnalysisError'' e [] w"
      have h: "heap ?w = heap w" by (simp add: push_error_frame)
      have f: "obs_failure E ?w = obs_failure E w"
        by (rule ext) (rule obs_failure_heap [OF h])
      from Cons.prems Some False
      have "\<not> list_all (\<lambda>t. \<not> nullish t) (List.map_filter (obs_failure E ?w) ks)"
        by (simp add: List.map_filter_simps f)
      from Cons.IH [OF this] Some show ?thesis
        by (simp add: scan_observable_failed recordError_pushes [OF False])
    qed
  qed
qed

lemma scan_component_eq:
  "scan_component E (hot, w) c =
     (case comp_failure c of
        None \<Rightarrow> (None, if comp_hot c then hot @ [hot_component_entry E c] else hot, w)
      | Some e \<Rightarrow> (fst (recordError E ''hotspotAnalysisError'' e [] w), hot,
                   snd (recordError E ''hotspotAnalysisError'' e [] w)))"
  by (cases "comp_getMetrics (snd c)")
     (simp_all add: scan_component_def comp_hot_def comp_failure_def hot_component_entry_def
        split_def)

lemma comp_hot_failed: "comp_failure c = Some e \<Longrightarrow> \<not> comp_hot c"
  by (auto simp: comp_failure_def comp_hot_def split: sum.splits)

lemma for_each_scan_component:
  "list_all (\<lambda>t. \<not> nullish t) (List.map_filter comp_failure cs) \<Longrightarrow>
   for_each (scan_component E) cs (hot, w) =
     (None, hot @ map (hot_component_entry E) (filter comp_hot cs),
      record_errors E ''hotspotAnalysisError'' (List.map_filter comp_failure cs) w)"
proof (induction cs arbitrary: hot w)
  case Nil
  show ?case by (simp add: List.map_filter_simps)
next
  case (Cons c cs)
  show ?case
  proof (cases "comp_failure c")
    case None
    with Cons.prems have "list_all (\<lambda>t. \<not> nullish t) (List.map_filter comp_failure cs)"
      by (simp add: List.map_filter_simps)
    from Cons.IH [OF this] None show ?thesis
      by (simp add: scan_component_eq List.map_filter_simps)
  next
    case (Some e)
    with Cons.prems have n: "\<not> nullish e"
      and r: "list_all (\<lambda>t. \<not> nullish t) (List.map_filter comp_failure cs)"
      by (simp_all add: List.map_filter_simps)
    show ?thesis
      using Some Cons.IH [OF r] comp_hot_failed [OF Some]
      by (simp add: scan_component_eq recordError_pushes [OF n] List.map_filter_simps)
  qed
qed

lemma for_each_scan_component_throws:
  "\<not> list_all (\<lambda>t. \<not> nullish t) (List.map_filter comp_failure cs) \<Longrightarrow>
   \<exists>msg. fst (for_each (scan_component E) cs (hot, w)) = Some (TypeError msg)"
proof (induction cs arbitrary: hot w)
  case Nil
  then show ?case by (simp add: List.map_filter_simps)
next
  case (Cons c cs)
  show ?case
  proof (cases "comp_failure c")
    case None
    with Cons.prems have "\<not> list_all (\<lambda>t. \<not> nullish t) (List.map_filter comp_failure cs)"
      by (simp add: List.map_filter_simps)
    from Cons.IH [OF this] None show ?thesis
      by (simp add: scan_component_eq)
  next
    case (Some e)
    show ?thesis
    proof (cases "nullish e")
      case True
      then show ?thesis
        using Some by (auto simp: scan_component_eq recordError_eq nullish_def)
    next
      case False
      from Cons.prems Some False
      have "\<not> list_all (\<lambda>t. \<not> nullish t) (List.map_filter comp_failure cs)"
        by (simp add: List.map_filter_simps)
      from Cons.IH [OF this] Some show ?thesis
        by (simp add: scan_component_eq recordError_pushes [OF False])
    qed
  qed
qed

lemma safe_registry_parts:
  "safe_registry E w =
     (list_all (\<lambda>t. \<not> nullish t) (List.map_filter comp_failure (components w)) \<and>
      list_all (\<lambda>t. \<not> nullish t) (List.map_filter (obs_failure E w) (observables w)))"
  by (auto simp: safe_registry_def failures_def)

text \<open>\<^verbatim>\<open>findHotspots\<close> when no entity throws \<^verbatim>\<open>null\<close> or \<^verbatim>\<open>undefined\<close>, and when one
  does.\<close>

lemma findHotspots_ok:
  assumes "safe_registry E w"
  shows "findHotspots E w =
     (Inr \<lparr>hotComponents = take 5 (sort_descending (component_score E)
             (map (hot_component_entry E) (filter comp_hot (components w)))),
           hotObservables = take 5 (sort_descending observable_score
             (map (hot_observable_entry E w) (filter (obs_hot E w) (observables w))))\<rparr>,
      record_errors E ''hotspotAnalysisError'' (hot_failures E w) w)"
proof -
  from assms have a: "list_all (\<lambda>t. \<not> nullish t) (List.map_filter comp_failure (components w))"
    and b: "list_all (\<lambda>t. \<not> nullish t) (List.map_filter (obs_failure E w) (observables w))"
    by (simp_all add: safe_registry_parts)
  let ?w1 = "record_errors E ''hotspotAnalysisError'' (List.map_filter comp_failure (components w)) w"
  have h: "heap ?w1 = heap w" "observables ?w1 = observables w"
    by (simp_all add: record_errors_frame)
  have f: "obs_failure E ?w1 = obs_failure E w" "obs_hot E ?w1 = obs_hot E w"
    "hot_observable_entry E ?w1 = hot_observable_entry E w"
    by (rule ext, simp add: obs_failure_heap [OF h(1)] obs_hot_heap [OF h(1)]
        hot_observable_entry_heap [OF h(1)])+
  have b': "list_all (\<lambda>t. \<not> nullish t) (List.map_filter (obs_failure E ?w1) (observables w))"
    using b by (simp add: f)
  show ?thesis
    by (simp add: findHotspots_def for_each_scan_component [OF a] h
        for_each_scan_observable [OF b'] f record_errors_append hot_failures_def)
qed

lemma findHotspots_throws:
  assumes "\<not> safe_registry E w"
  shows "\<exists>msg. fst (findHotspots E w) = Inl (TypeError msg)"
proof (cases "list_all (\<lambda>t. \<not> nullish t) (List.map_filter comp_failure (components w))")
  case False
  from for_each_scan_component_throws [OF this, of E "[]" w]
  obtain msg where "fst (for_each (scan_component E) (components w) ([], w)) = Some (TypeError msg)"
    by blast
  then show ?thesis
    by (auto simp: findHotspots_def split_def)
next
  case True
  with assms
  have b: "\<not> list_all (\<lambda>t. \<not> nullish t) (List.map_filter (obs_failure E w) (observables w))"
    by (simp add: safe_registry_parts)
  let ?w1 = "record_errors E ''hotspotAnalysisError'' (List.map_filter comp_failure (components w)) w"
  have h: "heap ?w1 = heap w" "observables ?w1 = observables w"
    by (simp_all add: record_errors_frame)
  have f: "obs_failure E ?w1 = obs_failure E w"
    by (rule ext) (rule obs_failure_heap [OF h(1)])
  have "\<not> list_all (\<lambda>t. \<not> nullish t) (List.map_filter (obs_failure E ?w1) (observables ?w1))"
    using b by (simp add: f h)
  from for_each_scan_observable_throws [OF this, of "[]"]
  obtain msg where
    "fst (for_each (scan_observable E) (observables ?w1) ([], ?w1)) = Some (TypeError msg)"
    by blast
  then show ?thesis
    by (auto simp: findHotspots_def for_each_scan_component [OF True] split_def)
qed

lemma descending_sort_descending: "descending key (sort_descending key xs)"
proof -
  have "sorted (map (\<lambda>x. - key x) (sort_key (\<lambda>x. - key x) xs))"
    by (rule sorted_sort_key)
  then show ?thesis
    by (simp add: descending_def sort_descending_def sorted_wrt_map)
qed

lemma descending_take: "descending key xs \<Longrightarrow> descending key (take n xs)"
  unfolding descending_def by (rule sorted_wrt_take)

lemma descending_rest_below:
  assumes "descending key xs" and "y \<in> set (take n xs)" and "x \<in> set xs" and "x \<notin> set (take n xs)"
  shows "key x \<le> key y"
proof -
  have "x \<in> set (drop n xs)"
    using assms(3,4) by (metis Un_iff append_take_drop_id set_append)
  moreover have "sorted_wrt (\<lambda>a b. key b \<le> key a) (take n xs @ drop n xs)"
    using assms(1) by (simp add: descending_def)
  ultimately show ?thesis
    using assms(2) unfolding sorted_wrt_append by blast
qed

lemma length_sort_descending [simp]: "length (sort_descending key xs) = length xs"
  by (simp add: sort_descending_def)

lemma set_sort_descending [simp]: "set (sort_descending key xs) = set xs"
  by (simp add: sort_descending_def)

section \<open>What the steps of a read and of a write leave\<close>

lemma tick_simps [simp]:
  "calls (tick w) = calls w" "heap (tick w) = heap w" "isDetailedMode (tick w) = isDetailedMode w"
  "observables (tick w) = observables w" "components (tick w) = components w"
  "global (tick w) = global w" "maxErrors (tick w) = maxErrors w" "nextId (tick w) = nextId w"
  "host_calls (tick w) = Suc (host_calls w)"
  by (simp_all add: tick_def)

lemma record_sample_simps [simp]:
  "calls (record_sample E name v tags w) = calls w"
  "heap (record_sample E name v tags w) = heap w"
  "observables (record_sample E name v tags w) = observables w"
  "components (record_sample E name v tags w) = components w"
  "global (record_sample E name v tags w) = global w"
  "maxErrors (record_sample E name v tags w) = maxErrors w"
  "nextId (record_sample E name v tags w) = nextId w"
  "isDetailedMode (record_sample E name v tags w) = isDetailedMode w"
  by (simp_all add: record_sample_def)

lemma push_error_simps [simp]:
  "calls (push_error E type e ctx w) = calls w"
  "heap (push_error E type e ctx w) = heap w"
  "observables (push_error E type e ctx w) = observables w"
  "components (push_error E type e ctx w) = components w"
  "maxErrors (push_error E type e ctx w) = maxErrors w"
  "nextId (push_error E type e ctx w) = nextId w"
  "isDetailedMode (push_error E type e ctx w) = isDetailedMode w"
  "host_calls (push_error E type e ctx w) = Suc (host_calls w)"
  by (simp_all add: push_error_def tick_def)

lemma recordError_simps [simp]:
  "calls (snd (recordError E type e ctx w)) = calls w"
  "heap (snd (recordError E type e ctx w)) = heap w"
  "observables (snd (recordError E type e ctx w)) = observables w"
  "components (snd (recordError E type e ctx w)) = components w"
  "maxErrors (snd (recordError E type e ctx w)) = maxErrors w"
  "nextId (snd (recordError E type e ctx w)) = nextId w"
  by (simp_all add: recordError_eq)

lemma reportPerformanceIssue_simps [simp]:
  "calls (reportPerformanceIssue E issue w) = calls w"
  "heap (reportPerformanceIssue E issue w) = heap w"
  "observables (reportPerformanceIssue E issue w) = observables w"
  "components (reportPerformanceIssue E issue w) = components w"
  "errors (global (reportPerformanceIssue E issue w)) = errors (global w)"
  "maxErrors (reportPerformanceIssue E issue w) = maxErrors w"
  "nextId (reportPerformanceIssue E issue w) = nextId w"
  by (simp_all add: reportPerformanceIssue_def Let_def tick_def)

lemma upd_obs_simps [simp]:
  "calls (upd_obs k f w) = calls w"
  "heap (upd_obs k f w) = (heap w)(k := f (heap w k))"
  "isDetailedMode (upd_obs k f w) = isDetailedMode w"
  "observables (upd_obs k f w) = observables w"
  "components (upd_obs k f w) = components w"
  "global (upd_obs k f w) = global w"
  "maxErrors (upd_obs k f w) = maxErrors w"
  "nextId (upd_obs k f w) = nextId w"
  "host_calls (upd_obs k f w) = host_calls w"
  by (simp_all add: upd_obs_def)

lemma finish_write_simps [simp]:
  "calls (finish_write E s w) = calls w"
  "heap (finish_write E s w) = heap w"
  "observables (finish_write E s w) = observables w"
  "components (finish_write E s w) = components w"
  "global (finish_write E s w) = global w"
  "maxErrors (finish_write E s w) = maxErrors w"
  "nextId (finish_write E s w) = nextId w"
  by (simp_all add: finish_write_def Let_def)

lemma end_notify_simps [simp]:
  "calls (end_notify E k s w) = calls w"
  "heap (end_notify E k s w) = heap w"
  "observables (end_notify E k s w) = observables w"
  "components (end_notify E k s w) = components w"
  "global (end_notify E k s w) = global w"
  "maxErrors (end_notify E k s w) = maxErrors w"
  "nextId (end_notify E k s w) = nextId w"
  by (simp_all add: end_notify_def Let_def)

lemma begin_write_simps [simp]:
  "calls (begin_write E k v w) = calls w"
  "val (heap (begin_write E k v w) k') = val (heap w k')"
  "entries (heap (begin_write E k v w) k') = entries (heap w k')"
  "computed_of (heap (begin_write E k v w) k') = computed_of (heap w k')"
  "writes (metrics (heap (begin_write E k v w) k'))
     = (if k' = k then Suc (writes (metrics (heap w k))) else writes (metrics (heap w k')))"
  "observables (begin_write E k v w) = observables w"
  "components (begin_write E k v w) = components w"
  "global (begin_write E k v w) = global w"
  "maxErrors (begin_write E k v w) = maxErrors w"
  "nextId (begin_write E k v w) = nextId w"
  by (simp_all add: begin_write_def Let_def)

text \<open>A write of the stored value: no subscriber is called.\<close>

lemma set_value_with_same:
  "val (heap w k) = v \<Longrightarrow>
   set_value_with E run k v w =
     Some (None, finish_write E (performance_now E (host_calls w)) (begin_write E k v w))"
  by (simp add: set_value_with_def Let_def Object_is_def)

text \<open>A write to an Observable that has no subscriber entry.\<close>

lemma set_value_with_alone:
  "entries (heap w k) = [] \<Longrightarrow>
   \<exists>w'. set_value_with E run k v w = Some (None, w') \<and>
     val (heap w' k) = v \<and> writes (metrics (heap w' k)) = Suc (writes (metrics (heap w k))) \<and>
     observables w' = observables w \<and> components w' = components w \<and>
     global w' = global w \<and> maxErrors w' = maxErrors w \<and> calls w' = calls w \<and>
     entries (heap w' k) = [] \<and> computed_of (heap w' k) = computed_of (heap w k)"
proof (cases "val (heap w k) = v")
  case True
  assume "entries (heap w k) = []"
  with True show ?thesis by (simp add: set_value_with_same)
next
  case False
  assume e: "entries (heap w k) = []"
  let ?w3 = "tick (upd_obs k (\<lambda>obs. obs\<lparr>val := v\<rparr>) (begin_write E k v w))"
  have "entries (heap ?w3 k) = []" using e by simp
  then have n: "notify_with E run k 0 v ?w3 = Some (None, ?w3)"
    by (simp add: notify_with_done)
  show ?thesis
    using False e n by (simp add: set_value_with_def Let_def Object_is_def)
qed

lemma write_all_alone:
  "entries (heap w k) = [] \<Longrightarrow>
   \<exists>w'. write_all E fuel k vs w = Some (None, w') \<and>
     val (heap w' k) = last (val (heap w k) # vs) \<and>
     writes (metrics (heap w' k)) = writes (metrics (heap w k)) + length vs \<and>
     observables w' = observables w \<and> components w' = components w \<and>
     global w' = global w \<and> maxErrors w' = maxErrors w \<and> calls w' = calls w \<and>
     entries (heap w' k) = [] \<and> computed_of (heap w' k) = computed_of (heap w k)"
proof (induction vs arbitrary: w)
  case Nil
  then show ?case by simp
next
  case (Cons v vs)
  from set_value_with_alone [OF Cons.prems, of E "invoke E fuel" v]
  obtain w1 where w1: "set_value E fuel k v w = Some (None, w1)" "val (heap w1 k) = v"
    "writes (metrics (heap w1 k)) = Suc (writes (metrics (heap w k)))"
    "observables w1 = observables w" "components w1 = components w"
    "global w1 = global w" "maxErrors w1 = maxErrors w" "calls w1 = calls w"
    "entries (heap w1 k) = []" "computed_of (heap w1 k) = computed_of (heap w k)"
    unfolding set_value_def by blast
  from Cons.IH [OF w1(9)] obtain w' where
    w': "write_all E fuel k vs w1 = Some (None, w')"
      "val (heap w' k) = last (val (heap w1 k) # vs)"
      "writes (metrics (heap w' k)) = writes (metrics (heap w1 k)) + length vs"
      "observables w' = observables w1" "components w' = components w1"
      "global w' = global w1" "maxErrors w' = maxErrors w1" "calls w' = calls w1"
      "entries (heap w' k) = []" "computed_of (heap w' k) = computed_of (heap w1 k)"
    by blast
  show ?case
    using w1 w' by simp
qed

section \<open>Entities whose getMetrics throws\<close>




lemma undefined_substring_not_nullish [simp]: "\<not> nullish undefined_substring"
  by (simp add: undefined_substring_def nullish_def)

lemma obs_getMetrics_undefined:
  "val obs = Undefined \<Longrightarrow> obs_getMetrics E obs = Inl undefined_substring"
  by (simp add: obs_getMetrics_def Observable_getMetrics_def stringify_substring_def
      JSON_stringify_def undefined_substring_def split: option.splits)

lemma obs_failure_undefined:
  "val (heap w k) = Undefined \<Longrightarrow> obs_failure E w k = Some undefined_substring"
  by (simp add: obs_failure_def obs_getMetrics_undefined)





lemma error_entries_frame:
  "errors (global w') = errors (global w) \<Longrightarrow> error_entries w' = error_entries w"
  by (simp add: error_entries_def)


lemma findHotspots_entries:
  assumes "safe_registry E w" and "cap_ok (maxErrors w)"
    and "fits (maxErrors w) (errors (global w))"
  shows "error_entries (snd (findHotspots E w)) =
           keep_within (maxErrors w)
             (error_entries w @ map (Pair ''hotspotAnalysisError'') (hot_failures E w))"
proof -
  have n: "list_all (\<lambda>t. \<not> nullish t) (hot_failures E w)"
    using assms(1) by (auto simp: safe_registry_def failures_def hot_failures_def)
  have "error_entries (snd (findHotspots E w))
          = error_entries (record_errors E ''hotspotAnalysisError'' (hot_failures E w) w)"
    unfolding findHotspots_ok [OF assms(1)] by simp
  also have "\<dots> = keep_within (maxErrors w)
                     (error_entries w @ map (Pair ''hotspotAnalysisError'') (hot_failures E w))"
    using assms n by (intro error_entries_record_errors) simp_all
  finally show ?thesis .
qed







section \<open>Hotspots: an Observable that holds undefined\<close>

lemma one_observable_fields:
  "observables (snd (new_Observable E v initial_system)) = [1]"
  "components (snd (new_Observable E v initial_system)) = []"
  "nextId (snd (new_Observable E v initial_system)) = 2"
  "val (heap (snd (new_Observable E v initial_system)) (Suc 0)) = v"
  "writes (metrics (heap (snd (new_Observable E v initial_system)) (Suc 0))) = 0"
  "entries (heap (snd (new_Observable E v initial_system)) k) = []"
  "computed_of (heap (snd (new_Observable E v initial_system)) k) = None"
  "global (snd (new_Observable E v initial_system)) = empty_global"
  "maxErrors (snd (new_Observable E v initial_system)) = Fin 50"
  "calls (snd (new_Observable E v initial_system)) = []"
  by (simp_all add: new_Observable_def register_def initial_system_def tick_def
      fresh_observable_def Let_def)

lemma undefined_written_fields:
  "observables undefined_written = [1]"
  "components undefined_written = []"
  "val (heap undefined_written (Suc 0)) = Undefined"
  "writes (metrics (heap undefined_written (Suc 0))) = 21"
  "global undefined_written = empty_global"
  "maxErrors undefined_written = Fin 50"
proof -
  let ?w0 = "snd (new_Observable plain_host (num 0) initial_system)"
  let ?vs = "map (\<lambda>n. num (of_nat n)) [1..<21] @ [Undefined]"
  have e: "entries (heap ?w0 1) = []" by (simp add: one_observable_fields)
  from write_all_alone [OF e, of plain_host 1 ?vs]
  obtain w' where w': "write_all plain_host 1 1 ?vs ?w0 = Some (None, w')"
    and v: "val (heap w' 1) = last (val (heap ?w0 1) # ?vs)"
    and wr: "writes (metrics (heap w' 1)) = writes (metrics (heap ?w0 1)) + length ?vs"
    and fr: "observables w' = observables ?w0" "components w' = components ?w0"
      "global w' = global ?w0" "maxErrors w' = maxErrors ?w0"
    by blast
  have u: "undefined_written = w'" unfolding undefined_written_def w' by simp
  show "observables undefined_written = [1]"
    unfolding u fr by (simp add: one_observable_fields)
  show "components undefined_written = []"
    unfolding u fr by (simp add: one_observable_fields)
  show "val (heap undefined_written (Suc 0)) = Undefined"
    unfolding u using v by simp
  show "writes (metrics (heap undefined_written (Suc 0))) = 21"
    unfolding u using wr by (simp add: one_observable_fields)
  show "global undefined_written = empty_global"
    unfolding u fr by (simp add: one_observable_fields)
  show "maxErrors undefined_written = Fin 50"
    unfolding u fr by (simp add: one_observable_fields)
qed

text \<open>
  C4, at an Observable that holds \<^verbatim>\<open>undefined\<close>. After \<^verbatim>\<open>const o = new Observable(0)\<close>,
  the writes of 1 to 20 and then of \<^verbatim>\<open>undefined\<close>, the Observable is registered and has
  \<open>writes = 21\<close>, and \<^verbatim>\<open>findHotspots()\<close> returns no hot Observable: \<^verbatim>\<open>getMetrics()\<close> of
  the Observable throws at \<^verbatim>\<open>JSON.stringify(undefined).substring\<close>, and the error log
  gets a \<^verbatim>\<open>hotspotAnalysisError\<close> for it.
\<close>

theorem findHotspots_undefined_value:
  "observables undefined_written = [1] \<and>
   val (heap undefined_written 1) = Undefined \<and>
   writes (metrics (heap undefined_written 1)) = 21 \<and>
   obs_getMetrics plain_host (heap undefined_written 1) =
     Inl (Err (TypeError ''Cannot read properties of undefined (reading 'substring')'')) \<and>
   fst (findHotspots plain_host undefined_written)
     = Inr \<lparr>hotComponents = [], hotObservables = []\<rparr> \<and>
   error_entries (snd (findHotspots plain_host undefined_written))
     = [(''hotspotAnalysisError'',
         Err (TypeError ''Cannot read properties of undefined (reading 'substring')''))]"
proof -
  have f: "obs_failure plain_host undefined_written (Suc 0) = Some undefined_substring"
    by (simp add: obs_failure_undefined undefined_written_fields)
  have hf: "hot_failures plain_host undefined_written = [undefined_substring]"
    by (simp add: hot_failures_def undefined_written_fields List.map_filter_simps f)
  have s: "safe_registry plain_host undefined_written"
    by (simp add: safe_registry_def failures_def undefined_written_fields
        List.map_filter_simps f)
  have a: "fst (findHotspots plain_host undefined_written)
     = Inr \<lparr>hotComponents = [], hotObservables = []\<rparr>"
    by (simp add: findHotspots_ok [OF s] undefined_written_fields obs_hot_def f
        sort_descending_def)
  have c: "cap_ok (maxErrors undefined_written)"
    "fits (maxErrors undefined_written) (errors (global undefined_written))"
    by (simp_all add: undefined_written_fields cap_ok_def fits_def empty_global_def)
  have b: "error_entries (snd (findHotspots plain_host undefined_written))
     = [(''hotspotAnalysisError'', undefined_substring)]"
    unfolding findHotspots_entries [OF s c]
    by (simp add: hf undefined_written_fields error_entries_def empty_global_def
        keep_within_def keep_last_def)
  have g: "obs_getMetrics plain_host (heap undefined_written 1) = Inl undefined_substring"
    by (simp add: obs_getMetrics_undefined undefined_written_fields)
  show ?thesis
    using a b g by (simp add: undefined_written_fields undefined_substring_def)
qed

section \<open>Hotspots: the ranking\<close>

text \<open>
  What \<^verbatim>\<open>findHotspots()\<close> returns when it returns: per category, the first 5 entries of
  the stable sort by decreasing score of the candidates, so at most 5 entries, in
  decreasing order of score, every candidate left out having a score not above those
  returned. Among the registered components, the candidates are those whose
  \<^verbatim>\<open>getMetrics()\<close> returns and has \<open>renders > 10\<close> and \<open>lastRenderTime > 10\<close>, with the
  score \<open>renders \<times> (renderTime / renders)\<close>; among the registered Observables, those whose
  \<^verbatim>\<open>getMetrics()\<close> returns and has \<open>writes > 20\<close>, with the score \<open>writes\<close>.
\<close>

lemma findHotspots_ranking:
  assumes r: "fst (findHotspots E w) = Inr h"
  shows "hotComponents h =
     take 5 (sort_descending (component_score E)
       (map (hot_component_entry E) (filter comp_hot (components w))))"
    and "hotObservables h =
     take 5 (sort_descending observable_score
       (map (hot_observable_entry E w) (filter (obs_hot E w) (observables w))))"
    and "length (hotComponents h) \<le> 5" and "length (hotObservables h) \<le> 5"
    and "descending (component_score E) (hotComponents h)"
    and "descending observable_score (hotObservables h)"
    and "\<forall>x \<in> set (hotComponents h). 10 < hc_renders x \<and> 10 < hc_lastRenderTime x"
    and "\<forall>x \<in> set (hotObservables h).
           20 < ho_writes x \<and> ho_id x \<in> set (observables w) \<and>
           obs_failure E w (ho_id x) = None"
    and "\<forall>x \<in> set (map (hot_component_entry E) (filter comp_hot (components w))).
           x \<notin> set (hotComponents h) \<longrightarrow>
           (\<forall>y \<in> set (hotComponents h). component_score E x \<le> component_score E y)"
    and "\<forall>x \<in> set (map (hot_observable_entry E w) (filter (obs_hot E w) (observables w))).
           x \<notin> set (hotObservables h) \<longrightarrow>
           (\<forall>y \<in> set (hotObservables h). observable_score x \<le> observable_score y)"
proof -
  let ?cc = "map (hot_component_entry E) (filter comp_hot (components w))"
  let ?oc = "map (hot_observable_entry E w) (filter (obs_hot E w) (observables w))"
  let ?sc = "sort_descending (component_score E) ?cc"
  let ?so = "sort_descending observable_score ?oc"
  have s: "safe_registry E w"
  proof (rule ccontr)
    assume "\<not> safe_registry E w"
    from findHotspots_throws [OF this] r show False by auto
  qed
  show hc: "hotComponents h = take 5 ?sc" and ho: "hotObservables h = take 5 ?so"
    using findHotspots_ok [OF s] r by auto
  show "length (hotComponents h) \<le> 5" and "length (hotObservables h) \<le> 5"
    unfolding hc ho by simp_all
  show "descending (component_score E) (hotComponents h)"
    unfolding hc by (intro descending_take descending_sort_descending)
  show "descending observable_score (hotObservables h)"
    unfolding ho by (intro descending_take descending_sort_descending)
  show "\<forall>x \<in> set (hotComponents h). 10 < hc_renders x \<and> 10 < hc_lastRenderTime x"
  proof
    fix x assume "x \<in> set (hotComponents h)"
    then have "x \<in> set ?cc" unfolding hc using set_take_subset [of 5 ?sc] by auto
    then obtain c where "comp_hot c" "x = hot_component_entry E c" by auto
    then show "10 < hc_renders x \<and> 10 < hc_lastRenderTime x"
      by (cases "comp_getMetrics (snd c)") (simp_all add: comp_hot_def hot_component_entry_def)
  qed
  show "\<forall>x \<in> set (hotObservables h).
           20 < ho_writes x \<and> ho_id x \<in> set (observables w) \<and>
           obs_failure E w (ho_id x) = None"
  proof
    fix x assume "x \<in> set (hotObservables h)"
    then have "x \<in> set ?oc" unfolding ho using set_take_subset [of 5 ?so] by auto
    then obtain k where "obs_hot E w k" "k \<in> set (observables w)" "x = hot_observable_entry E w k"
      by auto
    then show "20 < ho_writes x \<and> ho_id x \<in> set (observables w) \<and>
               obs_failure E w (ho_id x) = None"
      by (simp add: obs_hot_def hot_observable_entry_def)
  qed
  show "\<forall>x \<in> set ?cc. x \<notin> set (hotComponents h) \<longrightarrow>
           (\<forall>y \<in> set (hotComponents h). component_score E x \<le> component_score E y)"
    unfolding hc
  proof (intro ballI impI)
    fix x y assume a: "x \<in> set ?cc" "x \<notin> set (take 5 ?sc)" "y \<in> set (take 5 ?sc)"
    have "x \<in> set ?sc" using a(1) by (simp only: set_sort_descending)
    with descending_sort_descending a(3) show "component_score E x \<le> component_score E y"
      using a(2) by (rule descending_rest_below)
  qed
  show "\<forall>x \<in> set ?oc. x \<notin> set (hotObservables h) \<longrightarrow>
           (\<forall>y \<in> set (hotObservables h). observable_score x \<le> observable_score y)"
    unfolding ho
  proof (intro ballI impI)
    fix x y assume a: "x \<in> set ?oc" "x \<notin> set (take 5 ?so)" "y \<in> set (take 5 ?so)"
    have "x \<in> set ?so" using a(1) by (simp only: set_sort_descending)
    with descending_sort_descending a(3) show "observable_score x \<le> observable_score y"
      using a(2) by (rule descending_rest_below)
  qed
qed

lemma candidate_scores:
  "comp_getMetrics (snd c) = Inr m \<Longrightarrow>
     comp_hot c = (10 < renders m \<and> 10 < lastRenderTime m) \<and>
     component_score E (hot_component_entry E c)
       = fl E (of_nat (renders m) * fl E (renderTime m / of_nat (renders m)))"
  "observable_score (hot_observable_entry E w k) = of_nat (writes (metrics (heap w k)))"
  by (simp_all add: comp_hot_def component_score_def hot_component_entry_def
      observable_score_def hot_observable_entry_def)

end
